theory Spec2Isabelle
  imports Complex_Main "HOL-Library.Word"
begin

unbundle bit_operations_syntax

section \<open>Python strings and paths\<close>

text \<open>
  The script \<^verbatim>\<open>bambu_callback.py\<close> works on Python \<^verbatim>\<open>str\<close> values. A \<^typ>\<open>string\<close> is a
  list of characters; a \<^typ>\<open>char\<close> stands for one code point in the range U+0000 to U+00FF.
  The string methods below follow CPython on that range.
\<close>

definition endswith :: "string \<Rightarrow> string \<Rightarrow> bool" where
  "endswith s suf = (length suf \<le> length s \<and> drop (length s - length suf) s = suf)"

definition startswith :: "string \<Rightarrow> string \<Rightarrow> bool" where
  "startswith s pre = (take (length pre) s = pre)"

text \<open>\<^verbatim>\<open>sub in s\<close>\<close>

fun contains :: "string \<Rightarrow> string \<Rightarrow> bool" where
  "contains sub [] = (sub = [])"
| "contains sub (c # cs) = (startswith (c # cs) sub \<or> contains sub cs)"

text \<open>
  \<^verbatim>\<open>str.isspace\<close> on one character, which is also the class \<^verbatim>\<open>\s\<close> of a \<^verbatim>\<open>str\<close> pattern:
  TAB, LF, VT, FF, CR, the separators U+001C to U+001F, the space, NEL (U+0085) and
  the no-break space (U+00A0).
\<close>

definition py_isspace :: "char \<Rightarrow> bool" where
  "py_isspace c = (let n = (of_char c :: nat) in
     (9 \<le> n \<and> n \<le> 13) \<or> (28 \<le> n \<and> n \<le> 32) \<or> n = 133 \<or> n = 160)"

text \<open>The class \<^verbatim>\<open>\d\<close>: below U+0100 the decimal digits are \<^verbatim>\<open>0\<close> to \<^verbatim>\<open>9\<close>.\<close>

definition is_digit :: "char \<Rightarrow> bool" where
  "is_digit c = (let n = (of_char c :: nat) in 48 \<le> n \<and> n \<le> 57)"

definition digit_val :: "char \<Rightarrow> int" where
  "digit_val c = of_char c - 48"

definition lower_char :: "char \<Rightarrow> char" where
  "lower_char c = (let n = (of_char c :: nat) in
     if (65 \<le> n \<and> n \<le> 90) \<or> (192 \<le> n \<and> n \<le> 222 \<and> n \<noteq> 215) then char_of (n + 32) else c)"

definition lower :: "string \<Rightarrow> string" where
  "lower s = map lower_char s"

definition strip :: "string \<Rightarrow> string" where
  "strip s = rev (dropWhile py_isspace (rev (dropWhile py_isspace s)))"

text \<open>
  \<^verbatim>\<open>s.rfind(c) + 1\<close> for a single character: the length of the longest prefix that ends
  with \<^verbatim>\<open>c\<close>, and 0 when \<^verbatim>\<open>c\<close> does not occur.
\<close>

definition rfind_succ :: "char \<Rightarrow> string \<Rightarrow> nat" where
  "rfind_succ c s = length s - length (takeWhile (\<lambda>x. x \<noteq> c) (rev s))"

text \<open>
  \<^verbatim>\<open>os.path.splitext\<close> (posixpath): the extension starts at the last dot of the last path
  component, unless only dots precede it in that component.
  \<^verbatim>\<open>
  sepIndex = p.rfind('/'); dotIndex = p.rfind('.')
  if dotIndex > sepIndex:
      filenameIndex = sepIndex + 1
      while filenameIndex < dotIndex:
          if p[filenameIndex:filenameIndex+1] != '.':
              return p[:dotIndex], p[dotIndex:]
          filenameIndex += 1
  return p, p[:0]
  \<close>
\<close>

definition splitext :: "string \<Rightarrow> string \<times> string" where
  "splitext p = (let sepSucc = rfind_succ (CHR ''/'') p; dotSucc = rfind_succ (CHR ''.'') p in
     if dotSucc > sepSucc \<and> (\<exists>x \<in> set (take (dotSucc - 1 - sepSucc) (drop sepSucc p)). x \<noteq> CHR ''.'')
     then (take (dotSucc - 1) p, drop (dotSucc - 1) p)
     else (p, []))"

definition basename :: "string \<Rightarrow> string" where
  "basename p = drop (rfind_succ (CHR ''/'') p) p"

text \<open>\<^verbatim>\<open>os.path.join(a, b)\<close> (posixpath) for two arguments.\<close>

definition path_join :: "string \<Rightarrow> string \<Rightarrow> string" where
  "path_join a b = (if startswith b ''/'' then b
     else if a = [] \<or> endswith a ''/'' then a @ b
     else a @ ''/'' @ b)"

text \<open>\<^verbatim>\<open>os.environ.get(k, d)\<close>\<close>

definition getenv :: "(string \<rightharpoonup> string) \<Rightarrow> string \<Rightarrow> string \<Rightarrow> string" where
  "getenv env k d = (case env k of None \<Rightarrow> d | Some v \<Rightarrow> v)"

section \<open>The effective process profile\<close>

datatype json = JNull | JBool bool | JNum int | JStr string | JArr "json list"
  | JObj "(string \<times> json) list"

definition ENABLE_SUPPORT :: string where
  "ENABLE_SUPPORT = ''1''"

definition SUPPORT_TYPE :: string where
  "SUPPORT_TYPE = ''tree(auto)''"

definition WALL_LOOPS :: "(string \<rightharpoonup> string) \<Rightarrow> string" where
  "WALL_LOOPS env = strip (getenv env ''WALL_LOOPS'' '''')"

definition INFILL_DENSITY :: "(string \<rightharpoonup> string) \<Rightarrow> string" where
  "INFILL_DENSITY env = strip (getenv env ''INFILL_DENSITY'' '''')"

text \<open>
  \<^verbatim>\<open>density_value = INFILL_DENSITY if INFILL_DENSITY.endswith('%') else f"{INFILL_DENSITY}%"\<close>
\<close>

definition density_value :: "string \<Rightarrow> string" where
  "density_value d = (if endswith d ''%'' then d else d @ ''%'')"

text \<open>
  The assignments made to \<^verbatim>\<open>process_data\<close>, the dictionary loaded from the base profile
  (lines 232 to 248), in the order of the source.
\<close>

definition modify_process_data :: "(string \<rightharpoonup> string) \<Rightarrow> (string \<rightharpoonup> json) \<Rightarrow> (string \<rightharpoonup> json)" where
  "modify_process_data env process_data =
    (let d1 = (if ENABLE_SUPPORT = ''1''
               then process_data(''enable_support'' \<mapsto> JStr ''1'',
                                 ''support_type'' \<mapsto> JStr SUPPORT_TYPE,
                                 ''support_threshold_angle'' \<mapsto>
                                     JStr (getenv env ''SUPPORT_THRESHOLD_ANGLE'' ''30''))
               else process_data);
         d2 = (if WALL_LOOPS env \<noteq> [] then d1(''wall_loops'' \<mapsto> JStr (WALL_LOOPS env)) else d1)
     in (if INFILL_DENSITY env \<noteq> []
         then d2(''sparse_infill_density'' \<mapsto> JStr (density_value (INFILL_DENSITY env)))
         else d2))"

section \<open>Python numbers\<close>

text \<open>
  A Python \<^verbatim>\<open>float\<close> is an IEEE 754 binary64 value. \<^term>\<open>Fin x\<close> is the finite double whose
  exact value is the rational \<open>x\<close>; the two zeros, which compare equal in Python, are both
  \<^term>\<open>Fin 0\<close>. Every operation computes the exact rational result and rounds it to the
  nearest double, ties to the even significand (\<open>binary64\<close>), as the hardware does.
  Python integers are unbounded (\<^typ>\<open>int\<close>).
\<close>

datatype pyfloat = Fin rat | PInf | NInf | NaN

datatype exn = ValueError | OverflowError | ZeroDivisionError | OSError | RuntimeError

definition ebind :: "exn + 'a \<Rightarrow> ('a \<Rightarrow> exn + 'b) \<Rightarrow> exn + 'b" where
  "ebind m f = (case m of Inl e \<Rightarrow> Inl e | Inr x \<Rightarrow> f x)"

definition round_half_even :: "rat \<Rightarrow> int" where
  "round_half_even x = (let f = \<lfloor>x\<rfloor>; r = x - of_int f in
     if r < 1 / 2 then f else if 1 / 2 < r then f + 1 else if even f then f else f + 1)"

definition pow2 :: "int \<Rightarrow> rat" where
  "pow2 k = (if 0 \<le> k then 2 ^ nat k else 1 / 2 ^ nat (- k))"

definition pow10 :: "int \<Rightarrow> rat" where
  "pow10 k = (if 0 \<le> k then 10 ^ nat k else 1 / 10 ^ nat (- k))"

text \<open>
  \<open>\<lfloor>log\<^sub>2 \<bar>x\<bar>\<rfloor>\<close> for \<open>x \<noteq> 0\<close>: with \<open>x = a / b\<close>, the difference \<open>d\<close> of the bit lengths of
  \<open>\<bar>a\<bar>\<close> and \<open>b\<close> satisfies \<open>2 ^ (d - 1) < \<bar>x\<bar> < 2 ^ (d + 1)\<close>.
\<close>

function bitlen :: "int \<Rightarrow> int" where
  "bitlen n = (if n \<le> 0 then 0 else 1 + bitlen (n div 2))"
  by pat_completeness auto
termination
  by (relation "measure nat") auto

declare bitlen.simps [simp del]

definition ilog2 :: "rat \<Rightarrow> int" where
  "ilog2 x = (case quotient_of x of (a, b) \<Rightarrow>
      (let d = bitlen \<bar>a\<bar> - bitlen b in
       if pow2 d \<le> \<bar>x\<bar> then d else d - 1))"

text \<open>
  Rounding to binary64: 53 significant bits, the spacing of the subnormal numbers
  (\<open>2 ^ -1074\<close>) below \<open>2 ^ -1022\<close>, and an infinity when the rounded magnitude reaches
  \<open>2 ^ 1024\<close>.
\<close>

definition binary64 :: "rat \<Rightarrow> pyfloat" where
  "binary64 x = (if x = 0 then Fin 0 else
     (let q = pow2 (max (ilog2 x - 52) (- 1074)); y = of_int (round_half_even (x / q)) * q in
      if pow2 1024 \<le> \<bar>y\<bar> then (if 0 < x then PInf else NInf) else Fin y))"

fun fadd :: "pyfloat \<Rightarrow> pyfloat \<Rightarrow> pyfloat" where
  "fadd (Fin a) (Fin b) = binary64 (a + b)"
| "fadd NaN _ = NaN"
| "fadd _ NaN = NaN"
| "fadd PInf NInf = NaN"
| "fadd NInf PInf = NaN"
| "fadd PInf _ = PInf"
| "fadd _ PInf = PInf"
| "fadd NInf _ = NInf"
| "fadd _ NInf = NInf"

definition fneg :: "pyfloat \<Rightarrow> pyfloat" where
  "fneg x = (case x of Fin a \<Rightarrow> Fin (- a) | PInf \<Rightarrow> NInf | NInf \<Rightarrow> PInf | NaN \<Rightarrow> NaN)"

text \<open>An infinity times a finite value: its sign follows the signs, and times zero is NaN.\<close>

definition inf_times :: "pyfloat \<Rightarrow> rat \<Rightarrow> pyfloat" where
  "inf_times i a = (if a = 0 then NaN else if 0 < a then i else fneg i)"

fun fmul :: "pyfloat \<Rightarrow> pyfloat \<Rightarrow> pyfloat" where
  "fmul (Fin a) (Fin b) = binary64 (a * b)"
| "fmul NaN _ = NaN"
| "fmul _ NaN = NaN"
| "fmul (Fin a) i = inf_times i a"
| "fmul i (Fin b) = inf_times i b"
| "fmul PInf i = i"
| "fmul NInf i = fneg i"

text \<open>\<^verbatim>\<open>x / y\<close> on floats: a zero divisor raises.\<close>

fun fdiv :: "pyfloat \<Rightarrow> pyfloat \<Rightarrow> exn + pyfloat" where
  "fdiv (Fin a) (Fin b) = (if b = 0 then Inl ZeroDivisionError else Inr (binary64 (a / b)))"
| "fdiv NaN (Fin b) = (if b = 0 then Inl ZeroDivisionError else Inr NaN)"
| "fdiv i (Fin b) = (if b = 0 then Inl ZeroDivisionError else Inr (inf_times i b))"
| "fdiv NaN _ = Inr NaN"
| "fdiv _ NaN = Inr NaN"
| "fdiv (Fin a) _ = Inr (Fin 0)"
| "fdiv _ _ = Inr NaN"

text \<open>
  The equations of the three operations are applied by name only; on given numbers a
  sum, product or quotient is settled by a certificate for the rounding.
\<close>

declare fadd.simps [simp del] fmul.simps [simp del] fdiv.simps [simp del]

text \<open>
  \<^verbatim>\<open>float(n)\<close> for an integer, also the implicit conversion of \<^verbatim>\<open>n + x\<close> and \<^verbatim>\<open>n * x\<close>:
  correctly rounded, and OverflowError when the integer is too large for a double.
\<close>

definition float_of_int :: "int \<Rightarrow> exn + pyfloat" where
  "float_of_int n = (case binary64 (of_int n) of Fin x \<Rightarrow> Inr (Fin x) | _ \<Rightarrow> Inl OverflowError)"

text \<open>
  \<^verbatim>\<open>a / b\<close> on integers (true division): the correctly rounded quotient, ZeroDivisionError
  for \<^verbatim>\<open>b == 0\<close> and OverflowError when the quotient is too large for a double.
\<close>

definition int_truediv :: "int \<Rightarrow> int \<Rightarrow> exn + pyfloat" where
  "int_truediv a b = (if b = 0 then Inl ZeroDivisionError
     else (case binary64 (of_int a / of_int b) of Fin x \<Rightarrow> Inr (Fin x) | _ \<Rightarrow> Inl OverflowError))"

text \<open>
  \<^verbatim>\<open>round(x, ndigits)\<close> for a float and \<^verbatim>\<open>ndigits\<close> from 0 to 4: the exact value of \<^verbatim>\<open>x\<close>
  is rounded to \<^verbatim>\<open>ndigits\<close> decimals, ties to even, and the decimal result is converted
  back to the nearest double. Infinities and NaN are returned unchanged.
\<close>

definition py_round :: "pyfloat \<Rightarrow> nat \<Rightarrow> pyfloat" where
  "py_round x ndigits = (case x of
       Fin a \<Rightarrow> binary64 (of_int (round_half_even (a * 10 ^ ndigits)) / 10 ^ ndigits)
     | _ \<Rightarrow> x)"

text \<open>\<^verbatim>\<open>x == 0\<close>\<close>

definition is_zero :: "pyfloat \<Rightarrow> bool" where
  "is_zero x = (x = Fin 0)"

subsection \<open>Converting strings to numbers\<close>

definition dec_value :: "string \<Rightarrow> int" where
  "dec_value ds = foldl (\<lambda>a c. 10 * a + digit_val c) 0 ds"

text \<open>
  Underscores in a numeric literal given to \<^verbatim>\<open>int()\<close> or \<^verbatim>\<open>float()\<close> are accepted between two
  digits only and are removed; \<open>prev\<close> is the preceding character.
\<close>

fun strip_underscores :: "char \<Rightarrow> string \<Rightarrow> string option" where
  "strip_underscores prev [] = (if prev = CHR ''_'' then None else Some [])"
| "strip_underscores prev (c # cs) =
     (if c = CHR ''_'' then (if is_digit prev then strip_underscores c cs else None)
      else if prev = CHR ''_'' \<and> \<not> is_digit c then None
      else map_option ((#) c) (strip_underscores c cs))"

definition split_sign :: "string \<Rightarrow> bool \<times> string" where
  "split_sign s = (case s of [] \<Rightarrow> (False, [])
     | c # cs \<Rightarrow> if c = CHR ''-'' then (True, cs) else if c = CHR ''+'' then (False, cs) else (False, s))"

text \<open>
  \<^verbatim>\<open>int(s)\<close> for a string, base 10: surrounding whitespace, one optional sign, digits.
  The limit that recent interpreters put on the number of digits (4300 by default) is
  left out.
\<close>

definition py_int :: "string \<Rightarrow> exn + int" where
  "py_int s0 = (case split_sign (strip s0) of (neg, s1) \<Rightarrow>
     (case strip_underscores (CHR 0x00) s1 of
        None \<Rightarrow> Inl ValueError
      | Some ds \<Rightarrow> if ds \<noteq> [] \<and> list_all is_digit ds
                  then Inr (if neg then - dec_value ds else dec_value ds)
                  else Inl ValueError))"

text \<open>
  The decimal syntax of \<^verbatim>\<open>float(s)\<close>: sign, digits with an optional fraction (at least one
  digit in all), and an optional exponent, with nothing left over. The result is the
  exact rational value.
\<close>

definition parse_decimal :: "string \<Rightarrow> rat option" where
  "parse_decimal s = (case split_sign s of (neg, r0) \<Rightarrow>
     (let ip = takeWhile is_digit r0; r1 = dropWhile is_digit r0;
          fp = (if startswith r1 ''.'' \<and> r1 \<noteq> [] then takeWhile is_digit (tl r1) else []);
          r2 = (if startswith r1 ''.'' \<and> r1 \<noteq> [] then dropWhile is_digit (tl r1) else r1);
          m = (if neg then - of_int (dec_value (ip @ fp)) else of_int (dec_value (ip @ fp)))
      in if ip = [] \<and> fp = [] then None
         else (case r2 of
                 [] \<Rightarrow> Some (m * pow10 (- int (length fp)))
               | c # r3 \<Rightarrow>
                   if c = CHR ''e'' \<or> c = CHR ''E'' then
                     (case split_sign r3 of (eneg, ed) \<Rightarrow>
                        if ed \<noteq> [] \<and> list_all is_digit ed
                        then Some (m * pow10 ((if eneg then - dec_value ed else dec_value ed)
                                              - int (length fp)))
                        else None)
                   else None)))"

text \<open>\<^verbatim>\<open>inf\<close>, \<^verbatim>\<open>infinity\<close> and \<^verbatim>\<open>nan\<close>, in any case, with an optional sign.\<close>

definition parse_inf_nan :: "string \<Rightarrow> pyfloat option" where
  "parse_inf_nan s = (case split_sign s of (neg, r) \<Rightarrow>
     (let w = lower r in
      if list_all (\<lambda>c. of_char c < (128::nat)) r \<and> (w = ''inf'' \<or> w = ''infinity'')
        then Some (if neg then NInf else PInf)
      else if list_all (\<lambda>c. of_char c < (128::nat)) r \<and> w = ''nan'' then Some NaN
      else None))"

text \<open>
  \<^verbatim>\<open>float(s)\<close> for a string: ValueError unless the stripped text is a decimal literal or
  an infinity or NaN; a decimal literal beyond the range of a double gives an infinity.
\<close>

definition py_float :: "string \<Rightarrow> exn + pyfloat" where
  "py_float s0 = (case strip_underscores (CHR 0x00) (strip s0) of
       None \<Rightarrow> Inl ValueError
     | Some s \<Rightarrow> (case parse_decimal s of
          Some x \<Rightarrow> Inr (binary64 x)
        | None \<Rightarrow> (case parse_inf_nan s of Some v \<Rightarrow> Inr v | None \<Rightarrow> Inl ValueError)))"

section \<open>Reading the metadata of the archive\<close>

text \<open>
  \<^verbatim>\<open>str.splitlines\<close>: a line ends at LF, VT, FF, CR, CR LF, the separators U+001C to U+001E
  or NEL; an empty last line is not reported. \<open>cr\<close> tells that the previous character
  was a CR and \<open>cur\<close> is the current line, reversed.
\<close>

definition is_linebreak :: "char \<Rightarrow> bool" where
  "is_linebreak c = (let n = (of_char c :: nat) in (10 \<le> n \<and> n \<le> 13) \<or> (28 \<le> n \<and> n \<le> 30) \<or> n = 133)"

fun split_acc :: "bool \<Rightarrow> string \<Rightarrow> string \<Rightarrow> string list" where
  "split_acc cr cur [] = (if cur = [] then [] else [rev cur])"
| "split_acc cr cur (c # cs) =
     (if cr \<and> c = CHR 0x0A then split_acc False cur cs
      else if is_linebreak c then rev cur # split_acc (c = CHR 0x0D) [] cs
      else split_acc False (c # cur) cs)"

definition splitlines :: "string \<Rightarrow> string list" where
  "splitlines s = split_acc False [] s"

text \<open>
  \<^verbatim>\<open>re.compile(r'used_g="([^"]+)"').search(line)\<close>, with \<open>key\<close> the text up to the opening
  quote: group 1 of the leftmost match. At a position where the key matches, the greedy
  class takes every character up to the next quote; a shorter run is followed by a
  character that is not a quote, so the match at this position succeeds exactly when
  that run is not empty and a quote follows it.
\<close>

fun search_attr :: "string \<Rightarrow> string \<Rightarrow> string option" where
  "search_attr key [] = None"
| "search_attr key (c # cs) =
     (if startswith (c # cs) key
         \<and> takeWhile (\<lambda>x. x \<noteq> CHR 0x22) (drop (length key) (c # cs)) \<noteq> []
         \<and> dropWhile (\<lambda>x. x \<noteq> CHR 0x22) (drop (length key) (c # cs)) \<noteq> []
      then Some (takeWhile (\<lambda>x. x \<noteq> CHR 0x22) (drop (length key) (c # cs)))
      else search_attr key cs)"

definition used_g_pattern :: string where
  "used_g_pattern = ''used_g='' @ [CHR 0x22]"

definition used_m_pattern :: string where
  "used_m_pattern = ''used_m='' @ [CHR 0x22]"

record metadata =
  used_g_value :: "string option"
  used_m_value :: "string option"
  printing_time_line :: "string option"

definition no_metadata :: metadata where
  "no_metadata = \<lparr>used_g_value = None, used_m_value = None, printing_time_line = None\<rparr>"

text \<open>
  The body of the loop over the lines of \<^verbatim>\<open>Metadata/slice_info.config\<close> (lines 536 to
  547): a later match replaces an earlier one.
\<close>

definition scan_filament_line :: "metadata \<Rightarrow> string \<Rightarrow> metadata" where
  "scan_filament_line md line =
     (if startswith (strip line) ''<filament'' then
        (let md1 = (case search_attr used_g_pattern line of
                      Some v \<Rightarrow> md\<lparr>used_g_value := Some v\<rparr> | None \<Rightarrow> md)
         in (case search_attr used_m_pattern line of
               Some v \<Rightarrow> md1\<lparr>used_m_value := Some v\<rparr> | None \<Rightarrow> md1))
      else md)"

definition parse_slice_info :: "metadata \<Rightarrow> string \<Rightarrow> metadata" where
  "parse_slice_info md content = foldl scan_filament_line md (splitlines content)"

text \<open>Lines 556 to 558: the third line of \<^verbatim>\<open>Metadata/plate_1.gcode\<close>, when there is one.\<close>

definition parse_plate_gcode :: "metadata \<Rightarrow> string \<Rightarrow> metadata" where
  "parse_plate_gcode md content =
     (let lines = splitlines content in
      if length lines \<ge> 3 then md\<lparr>printing_time_line := Some (lines ! 2)\<rparr> else md)"

text \<open>
  What an archive holds under a name: text (the bytes decoded as UTF-8, errors ignored),
  an entry whose \<^verbatim>\<open>read()\<close> raises (caught and logged at lines 548 and 560), an entry that
  \<^verbatim>\<open>ZipFile.open\<close> rejects with BadZipFile, or one that it rejects with another exception
  (an encrypted entry raises RuntimeError). \<^verbatim>\<open>namelist()\<close> reports every entry in
  order; \<^verbatim>\<open>open(name)\<close> opens the last entry of that name.
\<close>

datatype member_data = Text string | Unreadable | Corrupt | Encrypted

type_synonym archive = "(string \<times> member_data) list"

definition namelist :: "archive \<Rightarrow> string list" where
  "namelist zf = map fst zf"

definition zf_open :: "archive \<Rightarrow> string \<Rightarrow> member_data" where
  "zf_open zf name = (case filter (\<lambda>m. fst m = name) zf of [] \<Rightarrow> Unreadable | ms \<Rightarrow> snd (last ms))"

datatype scan_abort = AbortBadZipFile | AbortRuntimeError

text \<open>
  One round of the loop over \<^verbatim>\<open>file_list\<close> (lines 530 to 561). The two tests are
  exclusive, since they compare the name with different literals.
\<close>

definition scan_member :: "archive \<Rightarrow> metadata \<Rightarrow> string \<Rightarrow> scan_abort + metadata" where
  "scan_member zf md file_name =
     (if file_name = ''Metadata/slice_info.config'' then
        (case zf_open zf file_name of
           Text content \<Rightarrow> Inr (parse_slice_info md content)
         | Unreadable \<Rightarrow> Inr md
         | Corrupt \<Rightarrow> Inl AbortBadZipFile
         | Encrypted \<Rightarrow> Inl AbortRuntimeError)
      else if file_name = ''Metadata/plate_1.gcode'' then
        (case zf_open zf file_name of
           Text content \<Rightarrow> Inr (parse_plate_gcode md content)
         | Unreadable \<Rightarrow> Inr md
         | Corrupt \<Rightarrow> Inl AbortBadZipFile
         | Encrypted \<Rightarrow> Inl AbortRuntimeError)
      else Inr md)"

fun scan_members :: "archive \<Rightarrow> metadata \<Rightarrow> string list \<Rightarrow> scan_abort + metadata" where
  "scan_members zf md [] = Inr md"
| "scan_members zf md (n # ns) =
     (case scan_member zf md n of Inl a \<Rightarrow> Inl a | Inr md' \<Rightarrow> scan_members zf md' ns)"

section \<open>The printing time\<close>

text \<open>
  The pattern of line 570 is
  \<^verbatim>\<open>total estimated time: ((?:(\d+)d\s*)?(?:(\d+)h\s*)?(?:(\d+)m\s*)?(?:(\d+)s)?)\<close>.
  Every part after the literal is optional, so the pattern matches wherever the literal
  does and \<^verbatim>\<open>re.search\<close> returns the match at the first occurrence of the literal.
  An optional group is greedy: it is taken when it can match, and since the rest of the
  pattern matches anything, the choice is never undone. Inside a group, \<^verbatim>\<open>\d+\<close> takes the
  whole run of digits (after a shorter run comes a digit, not the unit letter), and
  \<^verbatim>\<open>\s*\<close> the whole run of whitespace.
\<close>

text \<open>The text after the first occurrence of \<open>lit\<close>.\<close>

fun after_first :: "string \<Rightarrow> string \<Rightarrow> string option" where
  "after_first lit [] = (if lit = [] then Some [] else None)"
| "after_first lit (c # cs) =
     (if startswith (c # cs) lit then Some (drop (length lit) (c # cs)) else after_first lit cs)"

text \<open>
  \<^verbatim>\<open>(?:(\d+)u\s*)?\<close> for the unit letter \<open>u\<close>, or \<^verbatim>\<open>(?:(\d+)u)?\<close> when \<open>ws\<close> is false: the
  digits captured, if the group matched, and the text that remains.
\<close>

definition opt_group :: "char \<Rightarrow> bool \<Rightarrow> string \<Rightarrow> string option \<times> string" where
  "opt_group u ws s =
     (let ds = takeWhile is_digit s; r = dropWhile is_digit s in
      if ds \<noteq> [] \<and> r \<noteq> [] \<and> hd r = u
      then (Some ds, if ws then dropWhile py_isspace (tl r) else tl r)
      else (None, s))"

text \<open>Groups 2 to 5 of the match, given the text after the literal.\<close>

definition duration_groups :: "string \<Rightarrow> string option \<times> string option \<times> string option \<times> string option" where
  "duration_groups s =
     (case opt_group (CHR ''d'') True s of (gd, s1) \<Rightarrow>
      case opt_group (CHR ''h'') True s1 of (gh, s2) \<Rightarrow>
      case opt_group (CHR ''m'') True s2 of (gm, s3) \<Rightarrow>
      case opt_group (CHR ''s'') False s3 of (gs, s4) \<Rightarrow> (gd, gh, gm, gs))"

text \<open>\<^verbatim>\<open>int(match.group(i)) if match.group(i) else 0\<close>\<close>

definition group_int :: "string option \<Rightarrow> int" where
  "group_int g = (case g of None \<Rightarrow> 0 | Some ds \<Rightarrow> dec_value ds)"

text \<open>
  \<^verbatim>\<open>days * 24 + hours + minutes / 60 + seconds / 3600\<close>: the first sum is an integer, each
  quotient is a true division, and the integer is converted to a float for the
  addition. Each conversion raises OverflowError beyond the range of a double.
\<close>

definition hours_expr :: "int \<Rightarrow> int \<Rightarrow> int \<Rightarrow> int \<Rightarrow> exn + pyfloat" where
  "hours_expr days hours minutes seconds =
     ebind (int_truediv minutes 60) (\<lambda>qm.
     ebind (float_of_int (days * 24 + hours)) (\<lambda>dh.
     ebind (int_truediv seconds 3600) (\<lambda>qs.
       Inr (fadd (fadd dh qm) qs))))"

text \<open>Lines 569 to 580. The integer 0 of the two \<^verbatim>\<open>else\<close> branches is the float zero.\<close>

definition Total_printing_hours :: "string option \<Rightarrow> exn + pyfloat" where
  "Total_printing_hours ptl =
     (case ptl of
        None \<Rightarrow> Inr (Fin 0)
      | Some line \<Rightarrow>
          if line = [] then Inr (Fin 0)
          else (case after_first ''total estimated time: '' line of
                  None \<Rightarrow> Inr (Fin 0)
                | Some rest \<Rightarrow>
                    (case duration_groups rest of (gd, gh, gm, gs) \<Rightarrow>
                       hours_expr (group_int gd) (group_int gh) (group_int gm) (group_int gs))))"

section \<open>The cost estimate\<close>

text \<open>\<^verbatim>\<open>return item_name, round(cost / lifespan_hours, 3)\<close>\<close>

definition calculate_cost_per_hour :: "string \<Rightarrow> int \<Rightarrow> int \<Rightarrow> exn + (string \<times> pyfloat)" where
  "calculate_cost_per_hour item_name cost lifespan_hours =
     ebind (int_truediv cost lifespan_hours) (\<lambda>q. Inr (item_name, py_round q 3))"

record item =
  name :: string
  price :: int
  lifespan_min :: int

definition items :: "item list" where
  "items = [
    \<lparr>name = ''Nozzle'', price = 10, lifespan_min = 300\<rparr>,
    \<lparr>name = ''PTFE Tube (Hotend Liner)'', price = 5, lifespan_min = 500\<rparr>,
    \<lparr>name = ''Extruder Gears'', price = 20, lifespan_min = 1000\<rparr>,
    \<lparr>name = ''Build Plate Surface'', price = 30, lifespan_min = 500\<rparr>,
    \<lparr>name = ''Cooling Fans'', price = 15, lifespan_min = 2000\<rparr>,
    \<lparr>name = ''Belts'', price = 10, lifespan_min = 2000\<rparr>,
    \<lparr>name = ''Linear Bearings and Rods'', price = 40, lifespan_min = 3000\<rparr>,
    \<lparr>name = ''Hotend Heater Cartridge'', price = 15, lifespan_min = 2000\<rparr>,
    \<lparr>name = ''Thermistor'', price = 10, lifespan_min = 2000\<rparr>,
    \<lparr>name = ''Drive Gears/Pulleys'', price = 25, lifespan_min = 3000\<rparr>,
    \<lparr>name = ''Motherboard'', price = 150, lifespan_min = 5000\<rparr>,
    \<lparr>name = ''Stepper Driver'', price = 20, lifespan_min = 5000\<rparr>,
    \<lparr>name = ''LCD Screen'', price = 60, lifespan_min = 5 * 365 * 24\<rparr>,
    \<lparr>name = ''Power Supply Unit (PSU)'', price = 80, lifespan_min = 5000\<rparr>,
    \<lparr>name = ''Stepper Motors'', price = 30, lifespan_min = 10000\<rparr>,
    \<lparr>name = ''Filament Sensor'', price = 15, lifespan_min = 3000\<rparr>,
    \<lparr>name = ''Print Bed Heating Element'', price = 50, lifespan_min = 5000\<rparr>]"

text \<open>
  Lines 605 to 608: the loop adds the rounded rate of each item to a total that starts
  at 0.
\<close>

fun dep_loop :: "pyfloat \<Rightarrow> item list \<Rightarrow> exn + pyfloat" where
  "dep_loop tot [] = Inr tot"
| "dep_loop tot (it # its) =
     ebind (calculate_cost_per_hour (name it) (price it) (lifespan_min it))
       (\<lambda>(n, cost_per_hour). dep_loop (fadd tot cost_per_hour) its)"

definition total_dep_cost_per_hour :: "exn + pyfloat" where
  "total_dep_cost_per_hour = dep_loop (Fin 0) items"

text \<open>\<^verbatim>\<open>return round((power_watts / 1000) * electricity_rate_per_kwh, 3)\<close>\<close>

definition calculate_electricity_cost :: "int \<Rightarrow> pyfloat \<Rightarrow> exn + pyfloat" where
  "calculate_electricity_cost power_watts rate_per_kwh =
     ebind (int_truediv power_watts 1000) (\<lambda>kw. Inr (py_round (fmul kw rate_per_kwh) 3))"

definition power_consumption_watts :: int where
  "power_consumption_watts = 105"

definition electricity_rate_per_kwh :: pyfloat where
  "electricity_rate_per_kwh = binary64 (6 / 100)"

definition electricity_cost_per_hour :: "exn + pyfloat" where
  "electricity_cost_per_hour = calculate_electricity_cost power_consumption_watts electricity_rate_per_kwh"

text \<open>\<^verbatim>\<open>return round((filament_price / spool_weight) * total_used_grams, 2)\<close>\<close>

definition calculate_filament_cost :: "pyfloat \<Rightarrow> int \<Rightarrow> pyfloat \<Rightarrow> exn + pyfloat" where
  "calculate_filament_cost filament_price spool_weight total_used_grams =
     ebind (float_of_int spool_weight) (\<lambda>sw.
     ebind (fdiv filament_price sw) (\<lambda>per_gram.
       Inr (py_round (fmul per_gram total_used_grams) 2)))"

definition spool_weight :: int where
  "spool_weight = 1000"

text \<open>
  Lines 515 to 517. \<^verbatim>\<open>x ** 2\<close> on a float is the correctly rounded square.
\<close>

definition DEFAULT_FILAMENT_DENSITY :: pyfloat where
  "DEFAULT_FILAMENT_DENSITY = binary64 (124 / 100)"

definition FILAMENT_DIAMETER_CM :: pyfloat where
  "FILAMENT_DIAMETER_CM = binary64 (175 / 1000)"

definition FILAMENT_CROSS_SECTION :: "exn + pyfloat" where
  "FILAMENT_CROSS_SECTION =
     ebind (fdiv FILAMENT_DIAMETER_CM (Fin 2)) (\<lambda>r. Inr (fmul (binary64 (314159 / 100000)) (fmul r r)))"

text \<open>
  Lines 627 to 635. A string is true when it is not empty; the integer 0 of line 627
  is the float zero.
\<close>

definition total_used_grams :: "metadata \<Rightarrow> exn + pyfloat" where
  "total_used_grams md =
     ebind (case used_g_value md of
              None \<Rightarrow> Inr (Fin 0)
            | Some g \<Rightarrow> if g = [] then Inr (Fin 0) else py_float g) (\<lambda>grams.
       (case used_m_value md of
          None \<Rightarrow> Inr grams
        | Some m \<Rightarrow>
            if is_zero grams \<and> m \<noteq> [] then
              ebind (py_float m) (\<lambda>used_meters.
              ebind FILAMENT_CROSS_SECTION (\<lambda>cross.
                Inr (fmul (fmul (fmul used_meters (Fin 100)) cross) DEFAULT_FILAMENT_DENSITY)))
            else Inr grams))"

record cost_breakdown =
  filament_cost :: pyfloat
  total_depreciation_cost :: pyfloat
  total_electricity_cost :: pyfloat
  total_cost :: pyfloat

text \<open>Lines 637 to 642.\<close>

definition costs :: "pyfloat \<Rightarrow> pyfloat \<Rightarrow> pyfloat \<Rightarrow> pyfloat \<Rightarrow> pyfloat \<Rightarrow> exn + cost_breakdown" where
  "costs hours dep_rate el_rate filament_price grams =
     ebind (calculate_filament_cost filament_price spool_weight grams) (\<lambda>fc.
       (let dep = fmul hours dep_rate; el = fmul hours el_rate in
        Inr \<lparr>filament_cost = fc, total_depreciation_cost = dep, total_electricity_cost = el,
             total_cost = fadd (fadd dep el) fc\<rparr>))"

text \<open>The numbers of \<^verbatim>\<open>result_json\<close> (lines 645 to 653).\<close>

record result_json =
  r_request_id :: string
  r_file :: string
  r_total_cost :: pyfloat
  r_printing_hours :: pyfloat
  r_filament_grams :: pyfloat
  r_filament_cost :: pyfloat
  r_depreciation_cost :: pyfloat
  r_electricity_cost :: pyfloat
  r_printerMachine :: string
  r_printQuality :: string
  r_filament :: string

section \<open>The request identifier\<close>

text \<open>
  \<^verbatim>\<open>uuid.uuid4()\<close> is \<^verbatim>\<open>UUID(bytes=os.urandom(16), version=4)\<close>: the 128 random bits with
  the variant and version fields overwritten.
  \<^verbatim>\<open>
  int &= ~(0xc000 << 48); int |= 0x8000 << 48
  int &= ~(0xf000 << 64); int |= version << 76
  \<close>
\<close>

definition uuid4 :: "128 word \<Rightarrow> 128 word" where
  "uuid4 r = (((r AND NOT (push_bit 48 0xc000)) OR push_bit 48 0x8000)
                 AND NOT (push_bit 64 0xf000)) OR push_bit 76 4"

definition hexdigit :: "nat \<Rightarrow> char" where
  "hexdigit n = ''0123456789abcdef'' ! (n mod 16)"

text \<open>\<^verbatim>\<open>'%032x' % self.int\<close>: 32 hexadecimal digits, the most significant first.\<close>

definition hex32 :: "128 word \<Rightarrow> string" where
  "hex32 u = map (\<lambda>k. hexdigit (unat (drop_bit (4 * (31 - k)) u AND 15))) [0..<32]"

text \<open>\<^verbatim>\<open>str(uuid)\<close>: the digits in groups of 8, 4, 4, 4 and 12.\<close>

definition uuid_str :: "128 word \<Rightarrow> string" where
  "uuid_str u = (let h = hex32 u in
     take 8 h @ ''-'' @ take 4 (drop 8 h) @ ''-'' @ take 4 (drop 12 h) @ ''-''
       @ take 4 (drop 16 h) @ ''-'' @ drop 20 h)"

text \<open>\<^verbatim>\<open>str(uuid.uuid4())[:8]\<close>, as a function of the random bits.\<close>

definition generated_request_id :: "128 word \<Rightarrow> string" where
  "generated_request_id r = take 8 (uuid_str (uuid4 r))"

section \<open>The run of the script\<close>

text \<open>
  What the script finds outside itself. \<open>urandom\<close> is the result of \<^verbatim>\<open>os.urandom(16)\<close>;
  \<open>base_profile\<close> is the document loaded from the process profile, \<open>None\<close> when opening
  or parsing it raises; \<open>input_archive\<close> is what \<^verbatim>\<open>zipfile.ZipFile(project_file)\<close> does;
  \<open>slicer\<close> is the fate of the external process; \<open>output_archive\<close> is what is found at
  the output path after the slicer has ended, \<open>None\<close> when nothing exists there.
  Logging, which has no effect on the control flow, is left out, and the file system
  calls other than those listed are taken to succeed.
\<close>

datatype zip_open = BadZipFile | OpenError | Opened archive

datatype slicer_outcome = LaunchFails | Returned int | TimeoutExpired | CommunicateFails

record world =
  argv :: "string list"
  environ :: "string \<rightharpoonup> string"
  urandom :: "128 word"
  base_profile :: "json option"
  profile_writable :: bool
  input_archive :: zip_open
  slicer :: slicer_outcome
  output_archive :: "zip_open option"

datatype event =
    InspectArchive string
  | SweepStale
  | MakeDirs string
  | WriteProfile string
  | ProbeDisplay
  | ProbeRendering
  | Launch "string list"
  | Kill
  | WriteArtifact string
  | OpenArchive string
  | PrintResult result_json
  | Teardown string

text \<open>
  How the process ends: \<^verbatim>\<open>sys.exit(n)\<close>, an exception that nothing catches (a traceback
  and exit status 1), or the end of the script (exit status 0).
\<close>

datatype outcome = Exit nat | Uncaught exn | Completed

text \<open>A step of the script: the events it causes, and either the end of the process or a value.\<close>

type_synonym 'a step = "event list \<times> (outcome + 'a)"

definition emit :: "event \<Rightarrow> unit step" where
  "emit e = ([e], Inr ())"

definition halt :: "outcome \<Rightarrow> 'a step" where
  "halt out = ([], Inl out)"

definition ret :: "'a \<Rightarrow> 'a step" where
  "ret x = ([], Inr x)"

definition raising :: "exn + 'a \<Rightarrow> 'a step" where
  "raising m = (case m of Inl e \<Rightarrow> halt (Uncaught e) | Inr x \<Rightarrow> ret x)"

definition pbind :: "'a step \<Rightarrow> ('a \<Rightarrow> 'b step) \<Rightarrow> 'b step" where
  "pbind m f = (case m of
       (es, Inl out) \<Rightarrow> (es, Inl out)
     | (es, Inr x) \<Rightarrow> (case f x of (es', r) \<Rightarrow> (es @ es', r)))"

definition pthen :: "unit step \<Rightarrow> 'b step \<Rightarrow> 'b step" where
  "pthen m k = pbind m (\<lambda>_. k)"

subsection \<open>The module-level names (lines 21 to 116)\<close>

definition project_file :: "world \<Rightarrow> string" where
  "project_file w = argv w ! 1"

definition request_id :: "world \<Rightarrow> string" where
  "request_id w = (if length (argv w) > 2 then argv w ! 2 else generated_request_id (urandom w))"

definition CONFIG_DIR :: "world \<Rightarrow> string" where
  "CONFIG_DIR w = getenv (environ w) ''CONFIG_DIR'' ''/config''"

definition USE_SYSTEM_PROFILES :: "world \<Rightarrow> bool" where
  "USE_SYSTEM_PROFILES w = (getenv (environ w) ''USE_SYSTEM_PROFILES'' ''1'' = ''1'')"

definition SYSTEM_PROFILES_DIR :: string where
  "SYSTEM_PROFILES_DIR = ''/opt/bambustudio/resources/profiles/BBL''"

definition PRINTER_MACHINE_DIR :: "world \<Rightarrow> string" where
  "PRINTER_MACHINE_DIR w = (if USE_SYSTEM_PROFILES w then path_join SYSTEM_PROFILES_DIR ''machine''
     else path_join (CONFIG_DIR w) ''process_config'')"

definition PRINT_QUALITY_DIR :: "world \<Rightarrow> string" where
  "PRINT_QUALITY_DIR w = (if USE_SYSTEM_PROFILES w then path_join SYSTEM_PROFILES_DIR ''process''
     else path_join (CONFIG_DIR w) ''printer_config'')"

definition FILAMENT_CONFIG_DIR :: "world \<Rightarrow> string" where
  "FILAMENT_CONFIG_DIR w = (if USE_SYSTEM_PROFILES w then path_join SYSTEM_PROFILES_DIR ''filament''
     else path_join (CONFIG_DIR w) ''filament_config'')"

definition printer_machine_name :: "world \<Rightarrow> string" where
  "printer_machine_name w = getenv (environ w) ''PRINTER_MACHINE_NAME'' ''Bambu Lab X1 Carbon 0.4 nozzle.json''"

definition print_quality_name :: "world \<Rightarrow> string" where
  "print_quality_name w = getenv (environ w) ''PRINT_QUALITY_NAME'' ''0.20mm Standard @BBL X1C.json''"

definition filament_config_name :: "world \<Rightarrow> string" where
  "filament_config_name w = getenv (environ w) ''FILAMENT_CONFIG_NAME'' ''Bambu PLA Basic @BBL X1C.json''"

definition printer_machine_config :: "world \<Rightarrow> string" where
  "printer_machine_config w = path_join (PRINTER_MACHINE_DIR w) (printer_machine_name w)"

definition print_quality_config :: "world \<Rightarrow> string" where
  "print_quality_config w = path_join (PRINT_QUALITY_DIR w) (print_quality_name w)"

definition filament_config :: "world \<Rightarrow> string" where
  "filament_config w = path_join (FILAMENT_CONFIG_DIR w) (filament_config_name w)"

definition WORK_BASE_DIR :: "world \<Rightarrow> string" where
  "WORK_BASE_DIR w = path_join (CONFIG_DIR w) ''work''"

definition request_work_dir :: "world \<Rightarrow> string" where
  "request_work_dir w = path_join (WORK_BASE_DIR w) (request_id w)"

definition output_directory :: "world \<Rightarrow> string" where
  "output_directory w = path_join (request_work_dir w) ''slice_output''"

definition input_extension :: "world \<Rightarrow> string" where
  "input_extension w = lower (snd (splitext (project_file w)))"

definition is_3mf_file :: "world \<Rightarrow> bool" where
  "is_3mf_file w = (input_extension w = ''.3mf'')"

text \<open>
  Lines 74 to 91, on the result of opening the file as an archive: any exception gives
  \<^verbatim>\<open>False\<close>.
\<close>

definition check_3mf_has_slice_data :: "zip_open \<Rightarrow> bool" where
  "check_3mf_has_slice_data z = (case z of
       Opened zf \<Rightarrow>
         (let file_list = namelist zf;
              has_slice_info = list_ex (\<lambda>f. endswith f ''slice_info.config'') file_list;
              has_gcode = list_ex (\<lambda>f. endswith f ''.gcode'' \<and> contains ''plate'' (lower f)) file_list
          in has_slice_info \<and> has_gcode)
     | _ \<Rightarrow> False)"

definition is_presliced_3mf :: "world \<Rightarrow> bool" where
  "is_presliced_3mf w = (if is_3mf_file w then check_3mf_has_slice_data (input_archive w) else False)"

definition needs_slicing :: "world \<Rightarrow> bool" where
  "needs_slicing w = (\<not> is_presliced_3mf w)"

definition input_basename :: "world \<Rightarrow> string" where
  "input_basename w = fst (splitext (basename (project_file w)))"

definition min_save_3mf :: "world \<Rightarrow> string" where
  "min_save_3mf w = (if is_presliced_3mf w then project_file w
     else path_join (request_work_dir w) (input_basename w @ ''_output.3mf''))"

definition slicer_timeout_secs :: "world \<Rightarrow> exn + int" where
  "slicer_timeout_secs w = py_int (getenv (environ w) ''BAMBU_SLICE_TIMEOUT'' ''120'')"

definition CLEANUP_AGE_SECONDS :: "world \<Rightarrow> exn + int" where
  "CLEANUP_AGE_SECONDS w = py_int (getenv (environ w) ''CLEANUP_AGE_SECONDS'' ''3600'')"

definition bambu_slicer_exe :: string where
  "bambu_slicer_exe = ''/opt/bambustudio/AppRun''"

text \<open>Lines 168 to 175: the removal of the work directory; nothing it does can raise.\<close>

definition cleanup_current_work_dir :: "world \<Rightarrow> unit step" where
  "cleanup_current_work_dir w = emit (Teardown (request_work_dir w))"

subsection \<open>The modified process profile (lines 213 to 263)\<close>

definition needs_config_modification :: "world \<Rightarrow> bool" where
  "needs_config_modification w = (needs_slicing w \<and>
     (ENABLE_SUPPORT = ''1'' \<or> WALL_LOOPS (environ w) \<noteq> [] \<or> INFILL_DENSITY (environ w) \<noteq> []))"

definition modified_process_path :: "world \<Rightarrow> string" where
  "modified_process_path w = path_join (request_work_dir w) ''process_modified.json''"

text \<open>
  The profile is rewritten when the loaded document is an object and the file can be
  written; every failure inside the \<^verbatim>\<open>try\<close> block leaves the original path in use.
\<close>

definition profile_rewritten :: "world \<Rightarrow> bool" where
  "profile_rewritten w = (needs_config_modification w \<and> profile_writable w \<and>
     (case base_profile w of Some (JObj kvs) \<Rightarrow> True | _ \<Rightarrow> False))"

definition written_process_data :: "world \<Rightarrow> (string \<rightharpoonup> json)" where
  "written_process_data w = (case base_profile w of
       Some (JObj kvs) \<Rightarrow> modify_process_data (environ w) (map_of (rev kvs))
     | _ \<Rightarrow> Map.empty)"

definition actual_process_config :: "world \<Rightarrow> string" where
  "actual_process_config w = (if profile_rewritten w then modified_process_path w else print_quality_config w)"

definition compose_profile :: "world \<Rightarrow> unit step" where
  "compose_profile w = (if profile_rewritten w then emit (WriteProfile (modified_process_path w)) else ret ())"

subsection \<open>Slicing (lines 266 to 503)\<close>

definition auto_orient :: "world \<Rightarrow> string" where
  "auto_orient w = (if is_3mf_file w then ''0'' else ''1'')"

definition slice_command :: "world \<Rightarrow> string list" where
  "slice_command w = [
     ''xvfb-run'',
     ''--auto-servernum'',
     ''--server-args=-screen 0 1024x768x24'',
     bambu_slicer_exe,
     ''--orient='' @ auto_orient w,
     ''--arrange=1'',
     ''--load-settings='' @ printer_machine_config w @ '';'' @ actual_process_config w,
     ''--load-filaments='' @ filament_config w,
     ''--export-3mf='' @ min_save_3mf w,
     ''--export-slicedata='' @ output_directory w,
     ''--export-settings='' @ output_directory w @ ''/settings.json'',
     ''--slice=1'',
     ''--min-save'',
     project_file w]"

definition fail_after_cleanup :: "world \<Rightarrow> 'a step" where
  "fail_after_cleanup w = pbind (cleanup_current_work_dir w) (\<lambda>_. halt (Exit 1))"

definition run_slicer :: "world \<Rightarrow> unit step" where
  "run_slicer w =
     pthen (emit ProbeDisplay) (
     pthen (emit ProbeRendering) (
     pthen (emit (Launch (slice_command w)))
       (case slicer w of
          LaunchFails \<Rightarrow> fail_after_cleanup w
        | CommunicateFails \<Rightarrow> fail_after_cleanup w
        | Returned returncode \<Rightarrow>
            if returncode = 0
            then emit (WriteArtifact (path_join (request_work_dir w) ''bambu_cli_output.txt''))
            else pthen (emit (WriteArtifact (path_join (request_work_dir w) ''bambu_cli_error.txt'')))
                   (fail_after_cleanup w)
        | TimeoutExpired \<Rightarrow>
            pthen (emit Kill) (
            pthen (emit (WriteArtifact (path_join (request_work_dir w) ''bambu_cli_error.txt'')))
              (fail_after_cleanup w)))))"

subsection \<open>Parsing (lines 519 to 566)\<close>

text \<open>
  What is found at \<^verbatim>\<open>min_save_3mf\<close>: the input file itself for a pre-sliced input, which
  was opened as an archive a moment before, and else the output of the slicer.
\<close>

definition artifact :: "world \<Rightarrow> zip_open option" where
  "artifact w = (if is_presliced_3mf w then Some (input_archive w) else output_archive w)"

definition parse_artifact :: "world \<Rightarrow> metadata step" where
  "parse_artifact w = (case artifact w of
       None \<Rightarrow> fail_after_cleanup w
     | Some z \<Rightarrow>
         pthen (emit (OpenArchive (min_save_3mf w)))
           (case z of
              BadZipFile \<Rightarrow> fail_after_cleanup w
            | OpenError \<Rightarrow> halt (Uncaught OSError)
            | Opened zf \<Rightarrow>
                (case scan_members zf no_metadata (namelist zf) of
                   Inl AbortBadZipFile \<Rightarrow> fail_after_cleanup w
                 | Inl AbortRuntimeError \<Rightarrow> halt (Uncaught RuntimeError)
                 | Inr md \<Rightarrow> ret md)))"

subsection \<open>The estimate and the result (lines 568 to 669)\<close>

definition estimate :: "world \<Rightarrow> metadata \<Rightarrow> exn + (pyfloat \<times> pyfloat \<times> cost_breakdown)" where
  "estimate w md =
     ebind (Total_printing_hours (printing_time_line md)) (\<lambda>hours.
     ebind total_dep_cost_per_hour (\<lambda>dep_rate.
     ebind electricity_cost_per_hour (\<lambda>el_rate.
     ebind (py_float (getenv (environ w) ''FILAMENT_PRICE'' ''12'')) (\<lambda>filament_price.
     ebind (total_used_grams md) (\<lambda>grams.
     ebind (costs hours dep_rate el_rate filament_price grams) (\<lambda>c.
       Inr (hours, grams, c)))))))"

definition make_result :: "world \<Rightarrow> pyfloat \<Rightarrow> pyfloat \<Rightarrow> cost_breakdown \<Rightarrow> result_json" where
  "make_result w hours grams c = \<lparr>
     r_request_id = request_id w,
     r_file = basename (project_file w),
     r_total_cost = py_round (total_cost c) 4,
     r_printing_hours = py_round hours 3,
     r_filament_grams = py_round grams 2,
     r_filament_cost = py_round (filament_cost c) 2,
     r_depreciation_cost = py_round (total_depreciation_cost c) 4,
     r_electricity_cost = py_round (total_electricity_cost c) 4,
     r_printerMachine = printer_machine_name w,
     r_printQuality = print_quality_name w,
     r_filament = filament_config_name w\<rparr>"

definition report :: "world \<Rightarrow> metadata \<Rightarrow> unit step" where
  "report w md =
     pbind (raising (estimate w md)) (\<lambda>(hours, grams, c).
     pthen (emit (PrintResult (make_result w hours grams c)))
       (cleanup_current_work_dir w))"

subsection \<open>The whole script\<close>

definition main :: "world \<Rightarrow> unit step" where
  "main w =
     (if length (argv w) < 2 then halt (Exit 1)
      else
        pthen (if is_3mf_file w then emit (InspectArchive (project_file w)) else ret ()) (
        pbind (raising (slicer_timeout_secs w)) (\<lambda>_.
        pbind (raising (CLEANUP_AGE_SECONDS w)) (\<lambda>_.
        pthen (emit SweepStale) (
        pthen (emit (MakeDirs (request_work_dir w))) (
        pthen (emit (MakeDirs (output_directory w))) (
        pthen (compose_profile w) (
        pthen (if needs_slicing w then run_slicer w else ret ()) (
        pbind (parse_artifact w) (\<lambda>md.
          report w md))))))))))"

definition run :: "world \<Rightarrow> event list \<times> outcome" where
  "run w = (case main w of (es, Inl out) \<Rightarrow> (es, out) | (es, Inr _) \<Rightarrow> (es, Completed))"

section \<open>Notions used in the statements\<close>

text \<open>
  A duration in the form \<^verbatim>\<open><days>d <hours>h <minutes>m <seconds>s\<close>: each component is a
  run of digits followed by its unit letter, any component may be absent, and the
  components present are separated by one space.
\<close>

definition component :: "string option \<Rightarrow> char \<Rightarrow> string list" where
  "component g u = (case g of None \<Rightarrow> [] | Some ds \<Rightarrow> [ds @ [u]])"

fun join_spaces :: "string list \<Rightarrow> string" where
  "join_spaces [] = []"
| "join_spaces [x] = x"
| "join_spaces (x # y # zs) = x @ '' '' @ join_spaces (y # zs)"

definition duration_text :: "string option \<Rightarrow> string option \<Rightarrow> string option \<Rightarrow> string option \<Rightarrow> string" where
  "duration_text d h m s =
     join_spaces (component d (CHR ''d'') @ component h (CHR ''h'')
                  @ component m (CHR ''m'') @ component s (CHR ''s''))"

text \<open>
  A component that is present is a run of one to 4300 digits; beyond 4300 digits
  recent interpreters refuse the conversion by \<^verbatim>\<open>int()\<close>, which the model leaves out.
\<close>

definition digits :: "string option \<Rightarrow> bool" where
  "digits g = (case g of None \<Rightarrow> True
     | Some ds \<Rightarrow> ds \<noteq> [] \<and> list_all is_digit ds \<and> length ds \<le> 4300)"

text \<open>A component that is absent or has at most \<open>n\<close> digits.\<close>

definition at_most_digits :: "nat \<Rightarrow> string option \<Rightarrow> bool" where
  "at_most_digits n g = (case g of None \<Rightarrow> True | Some ds \<Rightarrow> length ds \<le> n)"

text \<open>
  The printing time in exact arithmetic: \<open>d * 24 + h + m / 60 + s / 3600\<close> as a rational.
\<close>

definition exact_hours :: "int \<Rightarrow> int \<Rightarrow> int \<Rightarrow> int \<Rightarrow> rat" where
  "exact_hours d h m s = of_int (d * 24 + h) + of_int m / 60 + of_int s / 3600"

text \<open>The sum over the table of price divided by lifespan, in exact arithmetic.\<close>

definition exact_rate_sum :: rat where
  "exact_rate_sum = sum_list (map (\<lambda>it. of_int (price it) / of_int (lifespan_min it)) items)"

text \<open>The rate of one item as the loop adds it: the quotient rounded to three decimals.\<close>

definition rounded_rate :: "item \<Rightarrow> pyfloat" where
  "rounded_rate it = py_round (binary64 (of_int (price it) / of_int (lifespan_min it))) 3"


text \<open>
  A step is orderly when it never ends the process otherwise than the script can, and
  when, if it ends it by \<^verbatim>\<open>sys.exit\<close>, the status is 1 and its last event is the
  teardown of the work directory.
\<close>

definition orderly :: "world \<Rightarrow> 'a step \<Rightarrow> bool" where
  "orderly w m = (case snd m of
       Inl (Exit n) \<Rightarrow> n = 1 \<and> fst m \<noteq> [] \<and> last (fst m) = Teardown (request_work_dir w)
     | Inl Completed \<Rightarrow> False
     | _ \<Rightarrow> True)"

section \<open>Sample inputs\<close>

text \<open>An archive as the slicer writes it: usage metadata and the instructions of one plate.\<close>

definition sliced_members :: archive where
  "sliced_members = [
     (''Metadata/slice_info.config'',
      Text ''<config>\<newline>  <plate>\<newline>    <filament id=\"1\" type=\"PLA\" used_m=\"3.21\" used_g=\"9.57\" />\<newline>  </plate>\<newline></config>\<newline>''),
     (''Metadata/plate_1.gcode'',
      Text ''; HEADER_BLOCK_START\<newline>; BambuStudio 01.09.07.52\<newline>; model printing time: 1h 2m 3s; total estimated time: 1h 5m 6s\<newline>'')]"

definition sample_world :: "string \<Rightarrow> string \<Rightarrow> archive \<Rightarrow> world" where
  "sample_world path rid zf = \<lparr>
     argv = [''bambu_callback.py'', path, rid],
     environ = Map.empty,
     urandom = 0,
     base_profile = Some (JObj []),
     profile_writable = True,
     input_archive = Opened zf,
     slicer = Returned 0,
     output_archive = Some (Opened sliced_members)\<rparr>"



definition presliced_3mf :: world where
  "presliced_3mf = sample_world ''/data/part.3MF'' ''job4'' sliced_members"

text \<open>A pre-sliced archive whose usage metadata gives the mass as a word.\<close>

definition bad_mass_members :: archive where
  "bad_mass_members = [
     (''Metadata/slice_info.config'',
      Text ''<config>\<newline>  <filament id=\"1\" type=\"PLA\" used_m=\"3.21\" used_g=\"unknown\" />\<newline></config>\<newline>''),
     (''Metadata/plate_1.gcode'', Text ''; HEADER_BLOCK_START\<newline>'')]"

definition bad_mass_3mf :: world where
  "bad_mass_3mf = sample_world ''/data/model.3mf'' ''job1'' bad_mass_members"

text \<open>What the loop over the entries of \<^const>\<open>sliced_members\<close> finds.\<close>

definition sliced_metadata :: metadata where
  "sliced_metadata = \<lparr>used_g_value = Some ''9.57'', used_m_value = Some ''3.21'',
     printing_time_line = Some ''; model printing time: 1h 2m 3s; total estimated time: 1h 5m 6s''\<rparr>"

definition bad_mass_metadata :: metadata where
  "bad_mass_metadata = \<lparr>used_g_value = Some ''unknown'', used_m_value = Some ''3.21'',
     printing_time_line = None\<rparr>"



section \<open>Properties\<close>

subsection \<open>Rounding to binary64\<close>

text \<open>
  The value of \<^const>\<open>binary64\<close> at a given rational is settled by a certificate: the binade
  of the argument and the integer significand nearest to the scaled argument.
\<close>

lemma pow2_powi: "pow2 k = 2 powi k"
  by (simp add: pow2_def power_int_def inverse_eq_divide power_one_over)

lemma pow2_pos: "0 < pow2 k"
  by (simp add: pow2_powi)

lemma pow2_add: "pow2 (a + b) = pow2 a * pow2 b"
  by (simp add: pow2_powi power_int_add)

lemma pow2_mono: "a \<le> b \<Longrightarrow> pow2 a \<le> pow2 b"
  by (simp add: pow2_powi power_int_increasing)

lemma pow2_strict_mono: "a < b \<Longrightarrow> pow2 a < pow2 b"
  by (simp add: pow2_powi power_int_strict_increasing)

lemma pow2_nat: "pow2 (int n) = 2 ^ n"
  by (simp add: pow2_def)

lemma bitlen_nonneg: "0 \<le> bitlen n"
  by (induction n rule: bitlen.induct) (subst bitlen.simps, simp)

lemma bitlen_pos: "0 < n \<Longrightarrow> 1 \<le> bitlen n"
  using bitlen_nonneg [of "n div 2"] by (subst bitlen.simps) simp

lemma bitlen_bounds:
  "0 < n \<Longrightarrow> 2 ^ nat (bitlen n - 1) \<le> n \<and> n < 2 ^ nat (bitlen n)"
proof (induction n rule: bitlen.induct)
  case (1 n)
  show ?case
  proof (cases "n = 1")
    case True
    have "bitlen 1 = 1" by (subst bitlen.simps, subst bitlen.simps, simp)
    with True show ?thesis by simp
  next
    case False
    with "1.prems" have h: "0 < n div 2" by simp
    have nle: "\<not> n \<le> 0" using "1.prems" by simp
    note ih = conjunct1 [OF "1.IH" [OF nle h]] conjunct2 [OF "1.IH" [OF nle h]]
    have b: "bitlen n = 1 + bitlen (n div 2)"
      using "1.prems" by (subst bitlen.simps) simp
    have pos: "1 \<le> bitlen (n div 2)" using h by (rule bitlen_pos)
    have e1: "nat (bitlen n - 1) = Suc (nat (bitlen (n div 2) - 1))"
      using b pos by simp
    have e2: "nat (bitlen n) = Suc (nat (bitlen (n div 2)))"
      using b pos by simp
    have "2 * 2 ^ nat (bitlen (n div 2) - 1) \<le> 2 * (n div 2)" using ih(1) by simp
    also have "\<dots> \<le> n" by simp
    finally have lo: "2 ^ nat (bitlen n - 1) \<le> n" by (simp add: e1)
    have "n div 2 + 1 \<le> 2 ^ nat (bitlen (n div 2))" using ih(2) by simp
    then have "2 * (n div 2) + 2 \<le> 2 * 2 ^ nat (bitlen (n div 2))" by simp
    moreover have "n < 2 * (n div 2) + 2" by presburger
    ultimately have hi: "n < 2 ^ nat (bitlen n)" by (simp add: e2)
    from lo hi show ?thesis ..
  qed
qed

lemma bitlen_pow2_bounds:
  assumes "0 < n"
  shows "pow2 (bitlen n - 1) \<le> of_int n" "of_int n < pow2 (bitlen n)"
proof -
  from bitlen_bounds [OF assms] have a: "2 ^ nat (bitlen n - 1) \<le> n" and b: "n < 2 ^ nat (bitlen n)"
    by simp_all
  have p: "0 \<le> bitlen n - 1" using bitlen_pos [OF assms] by simp
  have "(of_int (2 ^ nat (bitlen n - 1)) :: rat) \<le> of_int n" using a by (simp only: of_int_le_iff)
  then show "pow2 (bitlen n - 1) \<le> of_int n" using p by (simp add: pow2_def)
  have "(of_int n :: rat) < of_int (2 ^ nat (bitlen n))" using b by (simp only: of_int_less_iff)
  then show "of_int n < pow2 (bitlen n)" using bitlen_nonneg [of n] by (simp add: pow2_def)
qed

lemma ilog2_bounds:
  assumes "x \<noteq> 0"
  shows "pow2 (ilog2 x) \<le> \<bar>x\<bar> \<and> \<bar>x\<bar> < pow2 (ilog2 x + 1)"
proof -
  obtain a b where q: "quotient_of x = (a, b)" by (cases "quotient_of x")
  have bpos: "0 < b" using q by (rule quotient_of_denom_pos)
  have x: "x = of_int a / of_int b" using q by (rule quotient_of_div)
  have apos: "0 < \<bar>a\<bar>" using assms x by auto
  define d where "d = bitlen \<bar>a\<bar> - bitlen b"
  have ax: "\<bar>x\<bar> = of_int \<bar>a\<bar> / of_int b" using bpos by (simp add: x)
  have bb: "(0::rat) < of_int b" using bpos by simp
  have "\<bar>x\<bar> * of_int b = of_int \<bar>a\<bar>" using bb by (simp add: ax)
  have hi: "\<bar>x\<bar> < pow2 (d + 1)"
  proof -
    have "of_int \<bar>a\<bar> < pow2 (bitlen \<bar>a\<bar>)" using bitlen_pow2_bounds(2) [OF apos] .
    also have "\<dots> = pow2 (d + 1) * pow2 (bitlen b - 1)"
      by (simp add: d_def flip: pow2_add)
    also have "\<dots> \<le> pow2 (d + 1) * of_int b"
      using bitlen_pow2_bounds(1) [OF bpos] pow2_pos [of "d + 1"] by simp
    finally have "of_int \<bar>a\<bar> < pow2 (d + 1) * of_int b" .
    then show ?thesis using bb by (simp add: ax pos_divide_less_eq)
  qed
  have lo: "pow2 (d - 1) < \<bar>x\<bar>"
  proof -
    have "pow2 (d - 1) * of_int b < pow2 (d - 1) * pow2 (bitlen b)"
      using bitlen_pow2_bounds(2) [OF bpos] pow2_pos [of "d - 1"] by simp
    also have "\<dots> = pow2 (bitlen \<bar>a\<bar> - 1)"
      by (simp add: d_def flip: pow2_add)
    also have "\<dots> \<le> of_int \<bar>a\<bar>" using bitlen_pow2_bounds(1) [OF apos] .
    finally have "pow2 (d - 1) * of_int b < of_int \<bar>a\<bar>" .
    then show ?thesis using bb by (simp add: ax pos_less_divide_eq)
  qed
  have il: "ilog2 x = (if pow2 d \<le> \<bar>x\<bar> then d else d - 1)"
    by (simp add: ilog2_def q d_def Let_def)
  show ?thesis
  proof (cases "pow2 d \<le> \<bar>x\<bar>")
    case True
    then show ?thesis using hi il by simp
  next
    case False
    then show ?thesis using lo il by simp
  qed
qed

lemma ilog2_eqI:
  assumes "x \<noteq> 0" "pow2 e \<le> \<bar>x\<bar>" "\<bar>x\<bar> < pow2 (e + 1)"
  shows "ilog2 x = e"
proof (rule ccontr)
  assume ne: "ilog2 x \<noteq> e"
  from ilog2_bounds [OF assms(1)]
  have b: "pow2 (ilog2 x) \<le> \<bar>x\<bar>" "\<bar>x\<bar> < pow2 (ilog2 x + 1)" by simp_all
  show False
  proof (cases "ilog2 x < e")
    case True
    then have "pow2 (ilog2 x + 1) \<le> pow2 e" by (intro pow2_mono) simp
    with b(2) assms(2) show False by simp
  next
    case False
    with ne have "e + 1 \<le> ilog2 x" by simp
    then have "pow2 (e + 1) \<le> pow2 (ilog2 x)" by (rule pow2_mono)
    with b(1) assms(3) show False by simp
  qed
qed

lemma round_half_even_eqI:
  assumes "\<bar>y - of_int m\<bar> < 1 / 2"
  shows "round_half_even y = m"
proof -
  have lo: "of_int m - 1 / 2 < y" and hi: "y < of_int m + 1 / 2" using assms by linarith+
  consider "\<lfloor>y\<rfloor> = m" | "\<lfloor>y\<rfloor> = m - 1"
  proof -
    have "of_int (m - 1) \<le> y" using lo by simp
    then have "m - 1 \<le> \<lfloor>y\<rfloor>" by (simp only: le_floor_iff)
    moreover have "y < of_int (m + 1)" using hi by simp
    then have "\<lfloor>y\<rfloor> < m + 1" by (simp only: floor_less_iff)
    ultimately have "\<lfloor>y\<rfloor> = m \<or> \<lfloor>y\<rfloor> = m - 1" by linarith
    then show thesis using that by blast
  qed
  then show ?thesis
  proof cases
    case 1
    then show ?thesis using hi by (simp add: round_half_even_def Let_def)
  next
    case 2
    then show ?thesis using lo by (simp add: round_half_even_def Let_def)
  qed
qed

lemma round_half_even_tieI:
  assumes "\<bar>y - of_int m\<bar> = 1 / 2" "even m"
  shows "round_half_even y = m"
proof -
  consider "y = of_int m + 1 / 2" | "y = of_int m - 1 / 2" using assms(1) by (auto simp: abs_if split: if_splits)
  then show ?thesis
  proof cases
    case 1
    have "\<lfloor>y\<rfloor> = m" unfolding 1 by (rule floor_unique) simp_all
    then show ?thesis using 1 assms(2) by (simp add: round_half_even_def Let_def)
  next
    case 2
    have "y = of_int (m - 1) + 1 / 2" using 2 by simp
    have "\<lfloor>y\<rfloor> = m - 1" unfolding 2 by (rule floor_unique) simp_all
    then show ?thesis using 2 assms(2) by (simp add: round_half_even_def Let_def)
  qed
qed

lemma round_half_even_nearI:
  assumes "\<bar>y - of_int m\<bar> < 1 / 2 \<or> (\<bar>y - of_int m\<bar> = 1 / 2 \<and> even m)"
  shows "round_half_even y = m"
  using assms round_half_even_eqI round_half_even_tieI by blast

lemma round_half_even_of_int: "round_half_even (of_int m) = m"
  by (rule round_half_even_eqI) simp

lemma binary64_eqI:
  assumes "x \<noteq> 0" "pow2 e \<le> \<bar>x\<bar>" "\<bar>x\<bar> < pow2 (e + 1)"
    and "k = max (e - 52) (- 1074)"
    and "\<bar>x / pow2 k - of_int m\<bar> < 1 / 2
         \<or> (\<bar>x / pow2 k - of_int m\<bar> = 1 / 2 \<and> even m)"
    and "\<bar>of_int m * pow2 k\<bar> < pow2 1024"
    and "y = of_int m * pow2 k"
  shows "binary64 x = Fin y"
proof -
  have "ilog2 x = e" using assms(1-3) by (rule ilog2_eqI)
  moreover have "round_half_even (x / pow2 k) = m" using assms(5) by (rule round_half_even_nearI)
  ultimately show ?thesis using assms(1,4,6,7)
    by (simp add: binary64_def Let_def)
qed

lemma int_truediv_cert:
  assumes "pow2 e \<le> \<bar>of_int a / of_int b\<bar>" "\<bar>of_int a / of_int b\<bar> < pow2 (e + 1)"
    and "k = max (e - 52) (- 1074)"
    and "\<bar>of_int a / of_int b / pow2 k - of_int m\<bar> < 1 / 2
         \<or> (\<bar>of_int a / of_int b / pow2 k - of_int m\<bar> = 1 / 2 \<and> even m)"
    and "\<bar>of_int m * pow2 k\<bar> < pow2 1024"
    and "y = of_int m * pow2 k"
  shows "int_truediv a b = Inr (Fin y)"
proof -
  have nz: "(of_int a / of_int b :: rat) \<noteq> 0"
    using assms(1) pow2_pos [of e] by auto
  then have b: "b \<noteq> 0" by auto
  have "binary64 (of_int a / of_int b) = Fin y"
    using nz assms by (rule binary64_eqI)
  then show ?thesis using b by (simp add: int_truediv_def)
qed

lemma fadd_cert:
  assumes "pow2 e \<le> \<bar>a + b\<bar>" "\<bar>a + b\<bar> < pow2 (e + 1)"
    and "k = max (e - 52) (- 1074)"
    and "\<bar>(a + b) / pow2 k - of_int m\<bar> < 1 / 2
         \<or> (\<bar>(a + b) / pow2 k - of_int m\<bar> = 1 / 2 \<and> even m)"
    and "\<bar>of_int m * pow2 k\<bar> < pow2 1024"
    and "y = of_int m * pow2 k"
  shows "fadd (Fin a) (Fin b) = Fin y"
proof -
  have nz: "a + b \<noteq> 0" using assms(1) pow2_pos [of e] by auto
  show ?thesis using binary64_eqI [OF nz assms] by (simp add: fadd.simps)
qed

lemma fmul_cert:
  assumes "pow2 e \<le> \<bar>a * b\<bar>" "\<bar>a * b\<bar> < pow2 (e + 1)"
    and "k = max (e - 52) (- 1074)"
    and "\<bar>a * b / pow2 k - of_int m\<bar> < 1 / 2
         \<or> (\<bar>a * b / pow2 k - of_int m\<bar> = 1 / 2 \<and> even m)"
    and "\<bar>of_int m * pow2 k\<bar> < pow2 1024"
    and "y = of_int m * pow2 k"
  shows "fmul (Fin a) (Fin b) = Fin y"
proof -
  have nz: "a * b \<noteq> 0" using assms(1) pow2_pos [of e] by auto
  show ?thesis using binary64_eqI [OF nz assms] by (simp add: fmul.simps)
qed

lemma fdiv_cert:
  assumes "pow2 e \<le> \<bar>a / b\<bar>" "\<bar>a / b\<bar> < pow2 (e + 1)"
    and "k = max (e - 52) (- 1074)"
    and "\<bar>a / b / pow2 k - of_int m\<bar> < 1 / 2
         \<or> (\<bar>a / b / pow2 k - of_int m\<bar> = 1 / 2 \<and> even m)"
    and "\<bar>of_int m * pow2 k\<bar> < pow2 1024"
    and "y = of_int m * pow2 k"
  shows "fdiv (Fin a) (Fin b) = Inr (Fin y)"
proof -
  have nz: "a / b \<noteq> 0" using assms(1) pow2_pos [of e] by auto
  then have b: "b \<noteq> 0" by auto
  show ?thesis using binary64_eqI [OF nz assms] b by (simp add: fdiv.simps)
qed

lemma py_round_cert:
  assumes "pow2 e \<le> \<bar>of_int r / 10 ^ n\<bar>" "\<bar>of_int r / 10 ^ n\<bar> < pow2 (e + 1)"
    and "k = max (e - 52) (- 1074)"
    and "\<bar>of_int r / 10 ^ n / pow2 k - of_int m\<bar> < 1 / 2
         \<or> (\<bar>of_int r / 10 ^ n / pow2 k - of_int m\<bar> = 1 / 2 \<and> even m)"
    and "\<bar>of_int m * pow2 k\<bar> < pow2 1024"
    and "y = of_int m * pow2 k"
    and "\<bar>a * 10 ^ n - of_int r\<bar> < 1 / 2
         \<or> (\<bar>a * 10 ^ n - of_int r\<bar> = 1 / 2 \<and> even r)"
  shows "py_round (Fin a) n = Fin y"
proof -
  have nz: "(of_int r / 10 ^ n :: rat) \<noteq> 0" using assms(1) pow2_pos [of e] by auto
  have "round_half_even (a * 10 ^ n) = r" using assms(7) by (rule round_half_even_nearI)
  then show ?thesis using binary64_eqI [OF nz assms(1-6)] by (simp add: py_round_def)
qed

lemma py_round_zero_cert:
  assumes "\<bar>a * 10 ^ n\<bar> < 1 / 2"
  shows "py_round (Fin a) n = Fin 0"
proof -
  have "round_half_even (a * 10 ^ n) = 0" using assms by (intro round_half_even_eqI) simp
  then show ?thesis by (simp add: py_round_def binary64_def)
qed

lemma binary64_zero: "binary64 0 = Fin 0"
  by (simp add: binary64_def)

lemma float_of_int_cert:
  assumes "pow2 e \<le> \<bar>of_int n\<bar>" "\<bar>of_int n\<bar> < pow2 (e + 1)"
    and "k = max (e - 52) (- 1074)"
    and "\<bar>of_int n / pow2 k - of_int m\<bar> < 1 / 2
         \<or> (\<bar>of_int n / pow2 k - of_int m\<bar> = 1 / 2 \<and> even m)"
    and "\<bar>of_int m * pow2 k\<bar> < pow2 1024"
    and "y = of_int m * pow2 k"
  shows "float_of_int n = Inr (Fin y)"
proof -
  have nz: "(of_int n :: rat) \<noteq> 0" using assms(1) pow2_pos [of e] by auto
  show ?thesis using binary64_eqI [OF nz assms] by (simp add: float_of_int_def)
qed

lemma float_of_int_zero: "float_of_int 0 = Inr (Fin 0)"
  by (simp add: float_of_int_def binary64_zero)

lemma int_truediv_zero: "b \<noteq> 0 \<Longrightarrow> int_truediv 0 b = Inr (Fin 0)"
  by (simp add: int_truediv_def binary64_zero)

lemma fadd_zero_cert: "a + b = 0 \<Longrightarrow> fadd (Fin a) (Fin b) = Fin 0"
  by (simp only: fadd.simps binary64_zero)

lemma fmul_zero_cert: "a * b = 0 \<Longrightarrow> fmul (Fin a) (Fin b) = Fin 0"
  by (simp only: fmul.simps binary64_zero)

subsection \<open>The constants of the estimate\<close>

lemma rate_10_300: "calculate_cost_per_hour n 10 300 = Inr (n, Fin (1188950301625811 / 36028797018963968))"
proof -
  have q: "int_truediv 10 300 = Inr (Fin (4803839602528529 / 144115188075855872))"
    by (rule int_truediv_cert [where e = "-5" and k = "-57" and m = "4803839602528529"]) (simp_all add: pow2_def)
  have r: "py_round (Fin (4803839602528529 / 144115188075855872)) 3 = Fin (1188950301625811 / 36028797018963968)"
    by (rule py_round_cert [where e = "-5" and k = "-57" and m = "4755801206503244" and r = "33"]) (simp_all add: pow2_def)
  show ?thesis by (simp add: calculate_cost_per_hour_def ebind_def q r)
qed

lemma rate_5_500: "calculate_cost_per_hour n 5 500 = Inr (n, Fin (5764607523034235 / 576460752303423488))"
proof -
  have q: "int_truediv 5 500 = Inr (Fin (5764607523034235 / 576460752303423488))"
    by (rule int_truediv_cert [where e = "-7" and k = "-59" and m = "5764607523034235"]) (simp_all add: pow2_def)
  have r: "py_round (Fin (5764607523034235 / 576460752303423488)) 3 = Fin (5764607523034235 / 576460752303423488)"
    by (rule py_round_cert [where e = "-7" and k = "-59" and m = "5764607523034235" and r = "10"]) (simp_all add: pow2_def)
  show ?thesis by (simp add: calculate_cost_per_hour_def ebind_def q r)
qed

lemma rate_20_1000: "calculate_cost_per_hour n 20 1000 = Inr (n, Fin (5764607523034235 / 288230376151711744))"
proof -
  have q: "int_truediv 20 1000 = Inr (Fin (5764607523034235 / 288230376151711744))"
    by (rule int_truediv_cert [where e = "-6" and k = "-58" and m = "5764607523034235"]) (simp_all add: pow2_def)
  have r: "py_round (Fin (5764607523034235 / 288230376151711744)) 3 = Fin (5764607523034235 / 288230376151711744)"
    by (rule py_round_cert [where e = "-6" and k = "-58" and m = "5764607523034235" and r = "20"]) (simp_all add: pow2_def)
  show ?thesis by (simp add: calculate_cost_per_hour_def ebind_def q r)
qed

lemma rate_30_500: "calculate_cost_per_hour n 30 500 = Inr (n, Fin (1080863910568919 / 18014398509481984))"
proof -
  have q: "int_truediv 30 500 = Inr (Fin (1080863910568919 / 18014398509481984))"
    by (rule int_truediv_cert [where e = "-5" and k = "-57" and m = "8646911284551352"]) (simp_all add: pow2_def)
  have r: "py_round (Fin (1080863910568919 / 18014398509481984)) 3 = Fin (1080863910568919 / 18014398509481984)"
    by (rule py_round_cert [where e = "-5" and k = "-57" and m = "8646911284551352" and r = "60"]) (simp_all add: pow2_def)
  show ?thesis by (simp add: calculate_cost_per_hour_def ebind_def q r)
qed

lemma rate_15_2000: "calculate_cost_per_hour n 15 2000 = Inr (n, Fin (8070450532247929 / 1152921504606846976))"
proof -
  have q: "int_truediv 15 2000 = Inr (Fin (1080863910568919 / 144115188075855872))"
    by (rule int_truediv_cert [where e = "-8" and k = "-60" and m = "8646911284551352"]) (simp_all add: pow2_def)
  have r: "py_round (Fin (1080863910568919 / 144115188075855872)) 3 = Fin (8070450532247929 / 1152921504606846976)"
    by (rule py_round_cert [where e = "-8" and k = "-60" and m = "8070450532247929" and r = "7"]) (simp_all add: pow2_def)
  show ?thesis by (simp add: calculate_cost_per_hour_def ebind_def q r)
qed

lemma rate_10_2000: "calculate_cost_per_hour n 10 2000 = Inr (n, Fin (5764607523034235 / 1152921504606846976))"
proof -
  have q: "int_truediv 10 2000 = Inr (Fin (5764607523034235 / 1152921504606846976))"
    by (rule int_truediv_cert [where e = "-8" and k = "-60" and m = "5764607523034235"]) (simp_all add: pow2_def)
  have r: "py_round (Fin (5764607523034235 / 1152921504606846976)) 3 = Fin (5764607523034235 / 1152921504606846976)"
    by (rule py_round_cert [where e = "-8" and k = "-60" and m = "5764607523034235" and r = "5"]) (simp_all add: pow2_def)
  show ?thesis by (simp add: calculate_cost_per_hour_def ebind_def q r)
qed

lemma rate_40_3000: "calculate_cost_per_hour n 40 3000 = Inr (n, Fin (7493989779944505 / 576460752303423488))"
proof -
  have q: "int_truediv 40 3000 = Inr (Fin (7686143364045647 / 576460752303423488))"
    by (rule int_truediv_cert [where e = "-7" and k = "-59" and m = "7686143364045647"]) (simp_all add: pow2_def)
  have r: "py_round (Fin (7686143364045647 / 576460752303423488)) 3 = Fin (7493989779944505 / 576460752303423488)"
    by (rule py_round_cert [where e = "-7" and k = "-59" and m = "7493989779944505" and r = "13"]) (simp_all add: pow2_def)
  show ?thesis by (simp add: calculate_cost_per_hour_def ebind_def q r)
qed

lemma rate_25_3000: "calculate_cost_per_hour n 25 3000 = Inr (n, Fin (1152921504606847 / 144115188075855872))"
proof -
  have q: "int_truediv 25 3000 = Inr (Fin (4803839602528529 / 576460752303423488))"
    by (rule int_truediv_cert [where e = "-7" and k = "-59" and m = "4803839602528529"]) (simp_all add: pow2_def)
  have r: "py_round (Fin (4803839602528529 / 576460752303423488)) 3 = Fin (1152921504606847 / 144115188075855872)"
    by (rule py_round_cert [where e = "-7" and k = "-59" and m = "4611686018427388" and r = "8"]) (simp_all add: pow2_def)
  show ?thesis by (simp add: calculate_cost_per_hour_def ebind_def q r)
qed

lemma rate_150_5000: "calculate_cost_per_hour n 150 5000 = Inr (n, Fin (1080863910568919 / 36028797018963968))"
proof -
  have q: "int_truediv 150 5000 = Inr (Fin (1080863910568919 / 36028797018963968))"
    by (rule int_truediv_cert [where e = "-6" and k = "-58" and m = "8646911284551352"]) (simp_all add: pow2_def)
  have r: "py_round (Fin (1080863910568919 / 36028797018963968)) 3 = Fin (1080863910568919 / 36028797018963968)"
    by (rule py_round_cert [where e = "-6" and k = "-58" and m = "8646911284551352" and r = "30"]) (simp_all add: pow2_def)
  show ?thesis by (simp add: calculate_cost_per_hour_def ebind_def q r)
qed

lemma rate_20_5000: "calculate_cost_per_hour n 20 5000 = Inr (n, Fin (1152921504606847 / 288230376151711744))"
proof -
  have q: "int_truediv 20 5000 = Inr (Fin (1152921504606847 / 288230376151711744))"
    by (rule int_truediv_cert [where e = "-8" and k = "-60" and m = "4611686018427388"]) (simp_all add: pow2_def)
  have r: "py_round (Fin (1152921504606847 / 288230376151711744)) 3 = Fin (1152921504606847 / 288230376151711744)"
    by (rule py_round_cert [where e = "-8" and k = "-60" and m = "4611686018427388" and r = "4"]) (simp_all add: pow2_def)
  show ?thesis by (simp add: calculate_cost_per_hour_def ebind_def q r)
qed

lemma rate_60_43800: "calculate_cost_per_hour n 60 43800 = Inr (n, Fin (1152921504606847 / 1152921504606846976))"
proof -
  have q: "int_truediv 60 43800 = Inr (Fin (3158689053717389 / 2305843009213693952))"
    by (rule int_truediv_cert [where e = "-10" and k = "-62" and m = "6317378107434778"]) (simp_all add: pow2_def)
  have r: "py_round (Fin (3158689053717389 / 2305843009213693952)) 3 = Fin (1152921504606847 / 1152921504606846976)"
    by (rule py_round_cert [where e = "-10" and k = "-62" and m = "4611686018427388" and r = "1"]) (simp_all add: pow2_def)
  show ?thesis by (simp add: calculate_cost_per_hour_def ebind_def q r)
qed

lemma rate_80_5000: "calculate_cost_per_hour n 80 5000 = Inr (n, Fin (1152921504606847 / 72057594037927936))"
proof -
  have q: "int_truediv 80 5000 = Inr (Fin (1152921504606847 / 72057594037927936))"
    by (rule int_truediv_cert [where e = "-6" and k = "-58" and m = "4611686018427388"]) (simp_all add: pow2_def)
  have r: "py_round (Fin (1152921504606847 / 72057594037927936)) 3 = Fin (1152921504606847 / 72057594037927936)"
    by (rule py_round_cert [where e = "-6" and k = "-58" and m = "4611686018427388" and r = "16"]) (simp_all add: pow2_def)
  show ?thesis by (simp add: calculate_cost_per_hour_def ebind_def q r)
qed

lemma rate_30_10000: "calculate_cost_per_hour n 30 10000 = Inr (n, Fin (3458764513820541 / 1152921504606846976))"
proof -
  have q: "int_truediv 30 10000 = Inr (Fin (3458764513820541 / 1152921504606846976))"
    by (rule int_truediv_cert [where e = "-9" and k = "-61" and m = "6917529027641082"]) (simp_all add: pow2_def)
  have r: "py_round (Fin (3458764513820541 / 1152921504606846976)) 3 = Fin (3458764513820541 / 1152921504606846976)"
    by (rule py_round_cert [where e = "-9" and k = "-61" and m = "6917529027641082" and r = "3"]) (simp_all add: pow2_def)
  show ?thesis by (simp add: calculate_cost_per_hour_def ebind_def q r)
qed

lemma rate_15_3000: "calculate_cost_per_hour n 15 3000 = Inr (n, Fin (5764607523034235 / 1152921504606846976))"
proof -
  have q: "int_truediv 15 3000 = Inr (Fin (5764607523034235 / 1152921504606846976))"
    by (rule int_truediv_cert [where e = "-8" and k = "-60" and m = "5764607523034235"]) (simp_all add: pow2_def)
  have r: "py_round (Fin (5764607523034235 / 1152921504606846976)) 3 = Fin (5764607523034235 / 1152921504606846976)"
    by (rule py_round_cert [where e = "-8" and k = "-60" and m = "5764607523034235" and r = "5"]) (simp_all add: pow2_def)
  show ?thesis by (simp add: calculate_cost_per_hour_def ebind_def q r)
qed

lemma rate_50_5000: "calculate_cost_per_hour n 50 5000 = Inr (n, Fin (5764607523034235 / 576460752303423488))"
proof -
  have q: "int_truediv 50 5000 = Inr (Fin (5764607523034235 / 576460752303423488))"
    by (rule int_truediv_cert [where e = "-7" and k = "-59" and m = "5764607523034235"]) (simp_all add: pow2_def)
  have r: "py_round (Fin (5764607523034235 / 576460752303423488)) 3 = Fin (5764607523034235 / 576460752303423488)"
    by (rule py_round_cert [where e = "-7" and k = "-59" and m = "5764607523034235" and r = "10"]) (simp_all add: pow2_def)
  show ?thesis by (simp add: calculate_cost_per_hour_def ebind_def q r)
qed

lemma total_dep_cost_per_hour_value:
  "total_dep_cost_per_hour = Inr (Fin (4269412446747231 / 18014398509481984))"
proof -
  have a0: "fadd (Fin 0) (Fin (1188950301625811 / 36028797018963968)) = Fin (1188950301625811 / 36028797018963968)"
    by (rule fadd_cert [where e = "-5" and k = "-57" and m = "4755801206503244"]) (simp_all add: pow2_def)
  have a1: "fadd (Fin (1188950301625811 / 36028797018963968)) (Fin (5764607523034235 / 576460752303423488)) = Fin (6196953087261803 / 144115188075855872)"
    by (rule fadd_cert [where e = "-5" and k = "-57" and m = "6196953087261803"]) (simp_all add: pow2_def)
  have a2: "fadd (Fin (6196953087261803 / 144115188075855872)) (Fin (5764607523034235 / 288230376151711744)) = Fin (1134907106097365 / 18014398509481984)"
    by (rule fadd_cert [where e = "-4" and k = "-56" and m = "4539628424389460"]) (simp_all add: pow2_def)
  have a3: "fadd (Fin (1134907106097365 / 18014398509481984)) (Fin (1080863910568919 / 18014398509481984)) = Fin (553942754166571 / 4503599627370496)"
    by (rule fadd_cert [where e = "-4" and k = "-56" and m = "8863084066665136"]) (simp_all add: pow2_def)
  have a4: "fadd (Fin (553942754166571 / 4503599627370496)) (Fin (8070450532247929 / 1152921504606846976)) = Fin (1170935903116329 / 9007199254740992)"
    by (rule fadd_cert [where e = "-3" and k = "-55" and m = "4683743612465316"]) (simp_all add: pow2_def)
  have a5: "fadd (Fin (1170935903116329 / 9007199254740992)) (Fin (5764607523034235 / 1152921504606846976)) = Fin (607985949695017 / 4503599627370496)"
    by (rule fadd_cert [where e = "-3" and k = "-55" and m = "4863887597560136"]) (simp_all add: pow2_def)
  have a6: "fadd (Fin (607985949695017 / 4503599627370496)) (Fin (7493989779944505 / 576460752303423488)) = Fin (1333065489701667 / 9007199254740992)"
    by (rule fadd_cert [where e = "-3" and k = "-55" and m = "5332261958806668"]) (simp_all add: pow2_def)
  have a7: "fadd (Fin (1333065489701667 / 9007199254740992)) (Fin (8070450532247929 / 1152921504606846976)) = Fin (698057942242427 / 4503599627370496)"
    by (rule fadd_cert [where e = "-3" and k = "-55" and m = "5584463537939416"]) (simp_all add: pow2_def)
  have a8: "fadd (Fin (698057942242427 / 4503599627370496)) (Fin (5764607523034235 / 1152921504606846976)) = Fin (1441151880758559 / 9007199254740992)"
    by (rule fadd_cert [where e = "-3" and k = "-55" and m = "5764607523034236"]) (simp_all add: pow2_def)
  have a9: "fadd (Fin (1441151880758559 / 9007199254740992)) (Fin (1152921504606847 / 144115188075855872)) = Fin (1513209474796487 / 9007199254740992)"
    by (rule fadd_cert [where e = "-3" and k = "-55" and m = "6052837899185948"]) (simp_all add: pow2_def)
  have a10: "fadd (Fin (1513209474796487 / 9007199254740992)) (Fin (1080863910568919 / 36028797018963968)) = Fin (7133701809754867 / 36028797018963968)"
    by (rule fadd_cert [where e = "-3" and k = "-55" and m = "7133701809754867"]) (simp_all add: pow2_def)
  have a11: "fadd (Fin (7133701809754867 / 36028797018963968)) (Fin (1152921504606847 / 288230376151711744)) = Fin (7277816997830723 / 36028797018963968)"
    by (rule fadd_cert [where e = "-3" and k = "-55" and m = "7277816997830723"]) (simp_all add: pow2_def)
  have a12: "fadd (Fin (7277816997830723 / 36028797018963968)) (Fin (1152921504606847 / 1152921504606846976)) = Fin (7313845794849687 / 36028797018963968)"
    by (rule fadd_cert [where e = "-3" and k = "-55" and m = "7313845794849687"]) (simp_all add: pow2_def)
  have a13: "fadd (Fin (7313845794849687 / 36028797018963968)) (Fin (1152921504606847 / 72057594037927936)) = Fin (3945153273576555 / 18014398509481984)"
    by (rule fadd_cert [where e = "-3" and k = "-55" and m = "7890306547153110"]) (simp_all add: pow2_def)
  have a14: "fadd (Fin (3945153273576555 / 18014398509481984)) (Fin (3458764513820541 / 1152921504606846976)) = Fin (3999196469105001 / 18014398509481984)"
    by (rule fadd_cert [where e = "-3" and k = "-55" and m = "7998392938210002"]) (simp_all add: pow2_def)
  have a15: "fadd (Fin (3999196469105001 / 18014398509481984)) (Fin (5764607523034235 / 1152921504606846976)) = Fin (4089268461652411 / 18014398509481984)"
    by (rule fadd_cert [where e = "-3" and k = "-55" and m = "8178536923304822"]) (simp_all add: pow2_def)
  have a16: "fadd (Fin (4089268461652411 / 18014398509481984)) (Fin (5764607523034235 / 576460752303423488)) = Fin (4269412446747231 / 18014398509481984)"
    by (rule fadd_cert [where e = "-3" and k = "-55" and m = "8538824893494462"]) (simp_all add: pow2_def)
  show ?thesis
    by (simp add: total_dep_cost_per_hour_def items_def ebind_def
          rate_10_2000 rate_10_300 rate_150_5000 rate_15_2000 rate_15_3000 rate_20_1000 rate_20_5000 rate_25_3000 rate_30_10000 rate_30_500 rate_40_3000 rate_50_5000 rate_5_500 rate_60_43800 rate_80_5000
          a0 a1 a2 a3 a4 a5 a6 a7 a8 a9 a10 a11 a12 a13 a14 a15 a16)
qed

lemma electricity_rate_value: "electricity_rate_per_kwh = Fin (1080863910568919 / 18014398509481984)"
  unfolding electricity_rate_per_kwh_def
  by (rule binary64_eqI [where e = "-5" and k = "-57" and m = "8646911284551352"]) (simp_all add: pow2_def)

lemma electricity_cost_per_hour_value:
  "electricity_cost_per_hour = Inr (Fin (3458764513820541 / 576460752303423488))"
proof -
  have kw: "int_truediv 105 1000 = Inr (Fin (7566047373982433 / 72057594037927936))"
    by (rule int_truediv_cert [where e = "-4" and k = "-56" and m = "7566047373982433"]) (simp_all add: pow2_def)
  have pr: "fmul (Fin (7566047373982433 / 72057594037927936)) (Fin (1080863910568919 / 18014398509481984)) = Fin (7263405479023135 / 1152921504606846976)"
    by (rule fmul_cert [where e = "-8" and k = "-60" and m = "7263405479023135"]) (simp_all add: pow2_def)
  have el: "py_round (Fin (7263405479023135 / 1152921504606846976)) 3 = Fin (3458764513820541 / 576460752303423488)"
    by (rule py_round_cert [where e = "-8" and k = "-60" and m = "6917529027641082" and r = "6"]) (simp_all add: pow2_def)
  show ?thesis
    by (simp add: electricity_cost_per_hour_def calculate_electricity_cost_def
          power_consumption_watts_def electricity_rate_value ebind_def kw pr el)
qed




subsection \<open>The estimate on the sample archive\<close>

lemma py_float_12:
  "py_float ''12'' = Inr (Fin 12)"
proof -
  have f0: "strip_underscores (CHR 0x00) (strip ''12'') = Some ''12''"
    by code_simp
  have f1: "parse_decimal ''12'' = Some (12)"
    by code_simp
  have f2: "binary64 (12) = Fin 12"
    by (rule binary64_eqI [where e = "3" and k = "-49" and m = "6755399441055744"]) (simp_all add: pow2_def)
  show ?thesis
    by (simp add: py_float_def
          f0 f1 f2)
qed

lemma py_float_9_57:
  "py_float ''9.57'' = Inr (Fin (1346857763560489 / 140737488355328))"
proof -
  have f0: "strip_underscores (CHR 0x00) (strip ''9.57'') = Some ''9.57''"
    by code_simp
  have f1: "parse_decimal ''9.57'' = Some (957 / 100)"
    by code_simp
  have f2: "binary64 (957 / 100) = Fin (1346857763560489 / 140737488355328)"
    by (rule binary64_eqI [where e = "3" and k = "-49" and m = "5387431054241956"]) (simp_all add: pow2_def)
  show ?thesis
    by (simp add: py_float_def
          f0 f1 f2)
qed


lemma hours_sliced:
  "Total_printing_hours (Some ''; model printing time: 1h 2m 3s; total estimated time: 1h 5m 6s'') = Inr (Fin (1221601398924247 / 1125899906842624))"
proof -
  have f0: "after_first ''total estimated time: '' ''; model printing time: 1h 2m 3s; total estimated time: 1h 5m 6s'' = Some ''1h 5m 6s''"
    by code_simp
  have f1: "duration_groups ''1h 5m 6s'' = (None, Some ''1'', Some ''5'', Some ''6'')"
    by code_simp
  have f2: "dec_value ''1'' = 1"
    by code_simp
  have f3: "dec_value ''5'' = 5"
    by code_simp
  have f4: "dec_value ''6'' = 6"
    by code_simp
  have f5: "int_truediv 5 60 = Inr (Fin (6004799503160661 / 72057594037927936))"
    by (rule int_truediv_cert [where e = "-4" and k = "-56" and m = "6004799503160661"]) (simp_all add: pow2_def)
  have f6: "float_of_int 1 = Inr (Fin 1)"
    by (rule float_of_int_cert [where e = "0" and k = "-52" and m = "4503599627370496"]) (simp_all add: pow2_def)
  have f7: "int_truediv 6 3600 = Inr (Fin (7686143364045647 / 4611686018427387904))"
    by (rule int_truediv_cert [where e = "-10" and k = "-62" and m = "7686143364045647"]) (simp_all add: pow2_def)
  have f8: "fadd (Fin 1) (Fin (6004799503160661 / 72057594037927936)) = Fin (4878899596318037 / 4503599627370496)"
    by (rule fadd_cert [where e = "0" and k = "-52" and m = "4878899596318037"]) (simp_all add: pow2_def)
  have f9: "fadd (Fin (4878899596318037 / 4503599627370496)) (Fin (7686143364045647 / 4611686018427387904)) = Fin (1221601398924247 / 1125899906842624)"
    by (rule fadd_cert [where e = "0" and k = "-52" and m = "4886405595696988"]) (simp_all add: pow2_def)
  show ?thesis
    by (simp add: Total_printing_hours_def group_int_def hours_expr_def ebind_def
          f0 f1 f2 f3 f4 f5 f6 f7 f8 f9
          del: after_first.simps)
qed

lemma estimate_sliced:
  assumes env: "environ w = Map.empty"
  shows "estimate w sliced_metadata = Inr (Fin (1221601398924247 / 1125899906842624), Fin (1346857763560489 / 140737488355328),
    \<lparr>filament_cost = Fin (7926335344172073 / 72057594037927936), total_depreciation_cost = Fin (4632312504720745 / 18014398509481984),
    total_electricity_cost = Fin (3752759497495287 / 576460752303423488), total_cost = Fin (6731170075060491 / 18014398509481984)\<rparr>)"
proof -
  have f0: "float_of_int 1000 = Inr (Fin 1000)"
    by (rule float_of_int_cert [where e = "9" and k = "-43" and m = "8796093022208000"]) (simp_all add: pow2_def)
  have f1: "fdiv (Fin 12) (Fin 1000) = Inr (Fin (3458764513820541 / 288230376151711744))"
    by (rule fdiv_cert [where e = "-7" and k = "-59" and m = "6917529027641082"]) (simp_all add: pow2_def)
  have f2: "fmul (Fin (3458764513820541 / 288230376151711744)) (Fin (1346857763560489 / 140737488355328)) = Fin (8275094099315645 / 72057594037927936)"
    by (rule fmul_cert [where e = "-4" and k = "-56" and m = "8275094099315645"]) (simp_all add: pow2_def)
  have f3: "py_round (Fin (8275094099315645 / 72057594037927936)) 2 = Fin (7926335344172073 / 72057594037927936)"
    by (rule py_round_cert [where e = "-4" and k = "-56" and m = "7926335344172073" and r = "11"]) (simp_all add: pow2_def)
  have f4: "fmul (Fin (1221601398924247 / 1125899906842624)) (Fin (4269412446747231 / 18014398509481984)) = Fin (4632312504720745 / 18014398509481984)"
    by (rule fmul_cert [where e = "-2" and k = "-54" and m = "4632312504720745"]) (simp_all add: pow2_def)
  have f5: "fmul (Fin (1221601398924247 / 1125899906842624)) (Fin (3458764513820541 / 576460752303423488)) = Fin (3752759497495287 / 576460752303423488)"
    by (rule fmul_cert [where e = "-8" and k = "-60" and m = "7505518994990574"]) (simp_all add: pow2_def)
  have f6: "fadd (Fin (4632312504720745 / 18014398509481984)) (Fin (3752759497495287 / 576460752303423488)) = Fin (4749586239017473 / 18014398509481984)"
    by (rule fadd_cert [where e = "-2" and k = "-54" and m = "4749586239017473"]) (simp_all add: pow2_def)
  have f7: "fadd (Fin (4749586239017473 / 18014398509481984)) (Fin (7926335344172073 / 72057594037927936)) = Fin (6731170075060491 / 18014398509481984)"
    by (rule fadd_cert [where e = "-2" and k = "-54" and m = "6731170075060491"]) (simp_all add: pow2_def)
  have f8: "total_used_grams sliced_metadata = Inr (Fin (1346857763560489 / 140737488355328))"
    by (simp add: total_used_grams_def sliced_metadata_def py_float_9_57 is_zero_def ebind_def)
  have f9: "Total_printing_hours (printing_time_line sliced_metadata) = Inr (Fin (1221601398924247 / 1125899906842624))"
    by (simp add: sliced_metadata_def hours_sliced)
  show ?thesis
    by (simp add: estimate_def ebind_def getenv_def env total_dep_cost_per_hour_value
          electricity_cost_per_hour_value py_float_12 costs_def calculate_filament_cost_def spool_weight_def
          f0 f1 f2 f3 f4 f5 f6 f7 f8 f9)
qed



subsection \<open>Steps and traces\<close>

lemma fst_pbind: "fst (pbind m f) = fst m @ (case snd m of Inl out \<Rightarrow> [] | Inr x \<Rightarrow> fst (f x))"
  by (cases m) (auto simp: pbind_def split: sum.splits prod.splits)

lemma snd_pbind: "snd (pbind m f) = (case snd m of Inl out \<Rightarrow> Inl out | Inr x \<Rightarrow> snd (f x))"
  by (cases m) (auto simp: pbind_def split: sum.splits prod.splits)

lemma fst_pthen: "fst (pthen m k) = fst m @ (case snd m of Inl out \<Rightarrow> [] | Inr x \<Rightarrow> fst k)"
  by (simp add: pthen_def fst_pbind)

lemma snd_pthen: "snd (pthen m k) = (case snd m of Inl out \<Rightarrow> Inl out | Inr x \<Rightarrow> snd k)"
  by (simp add: pthen_def snd_pbind)

lemma step_simps:
  "fst (emit e) = [e]" "snd (emit e) = Inr ()"
  "fst (halt out) = []" "snd (halt out) = Inl out"
  "fst (ret x) = []" "snd (ret x) = Inr x"
  by (simp_all add: emit_def halt_def ret_def)

lemma fst_raising: "fst (raising m) = []"
  by (cases m) (simp_all add: raising_def step_simps)

lemma snd_raising: "snd (raising m) = (case m of Inl e \<Rightarrow> Inl (Uncaught e) | Inr x \<Rightarrow> Inr x)"
  by (cases m) (simp_all add: raising_def step_simps)

lemma fst_run: "fst (run w) = fst (main w)"
  by (cases "main w") (auto simp: run_def split: sum.splits)

lemma snd_run: "snd (run w) = (case snd (main w) of Inl out \<Rightarrow> out | Inr _ \<Rightarrow> Completed)"
  by (cases "main w") (auto simp: run_def split: sum.splits)

lemma fst_fail_after_cleanup: "fst (fail_after_cleanup w) = [Teardown (request_work_dir w)]"
  by (simp add: fail_after_cleanup_def cleanup_current_work_dir_def fst_pbind step_simps)

lemma snd_fail_after_cleanup: "snd (fail_after_cleanup w) = Inl (Exit 1)"
  by (simp add: fail_after_cleanup_def cleanup_current_work_dir_def snd_pbind step_simps)


lemma fst_compose_profile: "set (fst (compose_profile w)) \<subseteq> {WriteProfile (modified_process_path w)}"
  by (simp add: compose_profile_def step_simps)

lemma snd_compose_profile: "snd (compose_profile w) = Inr ()"
  by (simp add: compose_profile_def step_simps)








subsection \<open>The run on the sample archive\<close>

lemma scan_sliced: "scan_members sliced_members no_metadata (namelist sliced_members) = Inr sliced_metadata"
  by code_simp


subsection \<open>The infill density\<close>






subsection \<open>Inputs that are not 3MF files\<close>



subsection \<open>Pre-sliced archives\<close>






subsection \<open>Teardown of the work directory\<close>

text \<open>
  Every exit that the script handles is preceded by the teardown: whenever the process
  ends by \<^verbatim>\<open>sys.exit\<close> after the argument check, or reaches the end of the script, the
  last event of the run is the removal of the work directory of the job, and the status
  of every such exit is 1.
\<close>

lemma orderly_pbind:
  assumes "orderly w m" "\<And>x. orderly w (f x)"
  shows "orderly w (pbind m f)"
proof (cases "snd m")
  case (Inl out)
  then show ?thesis using assms(1)
    by (auto simp: orderly_def fst_pbind snd_pbind split: outcome.splits)
next
  case (Inr x)
  show ?thesis
    using assms(2) [of x] Inr
    by (auto simp: orderly_def fst_pbind snd_pbind split: sum.splits outcome.splits)
qed

lemma orderly_pthen: "orderly w m \<Longrightarrow> orderly w k \<Longrightarrow> orderly w (pthen m k)"
  by (simp add: pthen_def orderly_pbind)

lemma orderly_emit: "orderly w (emit e)"
  by (simp add: orderly_def step_simps)

lemma orderly_ret: "orderly w (ret x)"
  by (simp add: orderly_def step_simps)

lemma orderly_raising: "orderly w (raising m)"
  by (cases m) (simp_all add: orderly_def snd_raising)

lemma orderly_uncaught: "orderly w (halt (Uncaught e))"
  by (simp add: orderly_def step_simps)

lemma orderly_fail_after_cleanup: "orderly w (fail_after_cleanup w)"
  by (simp add: orderly_def fst_fail_after_cleanup snd_fail_after_cleanup)

lemma orderly_run_slicer: "orderly w (run_slicer w)"
  unfolding run_slicer_def
  by (intro orderly_pthen orderly_emit)
     (auto intro!: orderly_pthen orderly_emit orderly_fail_after_cleanup split: slicer_outcome.splits)

lemma orderly_parse_artifact: "orderly w (parse_artifact w)"
  unfolding parse_artifact_def
  by (auto intro!: orderly_pthen orderly_emit orderly_fail_after_cleanup orderly_uncaught orderly_ret
        split: option.splits zip_open.splits sum.splits scan_abort.splits)

lemma orderly_report: "orderly w (report w md)"
  unfolding report_def cleanup_current_work_dir_def
  by (auto intro!: orderly_pbind orderly_pthen orderly_emit orderly_raising)

lemma orderly_main: "2 \<le> length (argv w) \<Longrightarrow> orderly w (main w)"
  unfolding main_def compose_profile_def
  by (auto intro!: orderly_pbind orderly_pthen orderly_emit orderly_raising orderly_ret
        orderly_run_slicer orderly_parse_artifact orderly_report)

lemma report_completed:
  assumes "snd (report w md) = Inr u"
  shows "fst (report w md) \<noteq> [] \<and> last (fst (report w md)) = Teardown (request_work_dir w)"
  using assms
  by (auto simp: report_def fst_pbind snd_pbind fst_pthen snd_pthen step_simps fst_raising
        snd_raising cleanup_current_work_dir_def split: sum.splits prod.splits)

lemma main_completed:
  assumes "snd (main w) = Inr u"
  shows "fst (main w) \<noteq> [] \<and> last (fst (main w)) = Teardown (request_work_dir w)"
proof -
  from assms obtain md where md: "snd (parse_artifact w) = Inr md" "snd (report w md) = Inr u"
    by (auto simp: main_def snd_pbind snd_pthen step_simps snd_raising snd_compose_profile
          split: sum.splits if_splits)
  from report_completed [OF md(2)] md(1) assms show ?thesis
    by (auto simp: main_def fst_pbind fst_pthen snd_pbind snd_pthen step_simps fst_raising snd_raising
          snd_compose_profile split: sum.splits if_splits)
qed

lemma handled_exits_tear_down:
  assumes "2 \<le> length (argv w)" "snd (run w) = Completed \<or> snd (run w) = Exit n"
  shows "n = 1 \<or> snd (run w) = Completed"
    and "fst (run w) \<noteq> []" and "last (fst (run w)) = Teardown (request_work_dir w)"
proof -
  have o: "orderly w (main w)" using assms(1) by (rule orderly_main)
  have "(n = 1 \<or> snd (run w) = Completed)
      \<and> fst (run w) \<noteq> [] \<and> last (fst (run w)) = Teardown (request_work_dir w)"
  proof (cases "snd (main w)")
    case (Inl out)
    with o assms(2) show ?thesis
      by (auto simp: orderly_def fst_run snd_run split: outcome.splits)
  next
    case (Inr u)
    from main_completed [OF this] Inr show ?thesis by (simp add: fst_run snd_run)
  qed
  then show "n = 1 \<or> snd (run w) = Completed"
    and "fst (run w) \<noteq> []" and "last (fst (run w)) = Teardown (request_work_dir w)"
    by simp_all
qed

lemma py_float_unknown: "py_float ''unknown'' = Inl ValueError"
  by code_simp

lemma scan_bad_mass:
  "scan_members bad_mass_members no_metadata (namelist bad_mass_members) = Inr bad_mass_metadata"
  by code_simp

lemma estimate_bad_mass:
  assumes env: "environ w = Map.empty"
  shows "estimate w bad_mass_metadata = Inl ValueError"
proof -
  have h: "Total_printing_hours (printing_time_line bad_mass_metadata) = Inr (Fin 0)"
    by (simp add: Total_printing_hours_def bad_mass_metadata_def)
  have g: "total_used_grams bad_mass_metadata = Inl ValueError"
    by (simp add: total_used_grams_def bad_mass_metadata_def ebind_def py_float_unknown)
  show ?thesis
    by (simp add: estimate_def ebind_def getenv_def env h g total_dep_cost_per_hour_value
          electricity_cost_per_hour_value py_float_12)
qed

text \<open>
  C1, at an input that breaks it. The archive \<^verbatim>\<open>/data/model.3mf\<close> is pre-sliced, and the
  filament line of its usage metadata carries \<^verbatim>\<open>used_g="unknown"\<close>. The script inspects
  the archive, sweeps the stale directories, creates the work directory of the job
  and opens the archive for parsing; then \<^verbatim>\<open>float(used_g_value)\<close> at line 627 raises
  ValueError, which nothing catches. The process ends there, and the teardown of
  \<^verbatim>\<open>/config/work/job1\<close> is not among the events of the run.
\<close>

theorem uncaught_error_skips_teardown:
  "run bad_mass_3mf =
    ([InspectArchive ''/data/model.3mf'', SweepStale, MakeDirs ''/config/work/job1'',
      MakeDirs ''/config/work/job1/slice_output'', OpenArchive ''/data/model.3mf''],
     Uncaught ValueError)
   \<and> request_work_dir bad_mass_3mf = ''/config/work/job1''
   \<and> Teardown (request_work_dir bad_mass_3mf) \<notin> set (fst (run bad_mass_3mf))"
proof -
  have env: "environ bad_mass_3mf = Map.empty"
    by (simp add: bad_mass_3mf_def sample_world_def)
  have a: "length (argv bad_mass_3mf) = 3"
    by (simp add: bad_mass_3mf_def sample_world_def)
  have b: "is_3mf_file bad_mass_3mf" by code_simp
  have c: "needs_slicing bad_mass_3mf = False" by code_simp
  have d: "slicer_timeout_secs bad_mass_3mf = Inr 120" by code_simp
  have e: "CLEANUP_AGE_SECONDS bad_mass_3mf = Inr 3600" by code_simp
  have p: "project_file bad_mass_3mf = ''/data/model.3mf''" by code_simp
  have wd: "request_work_dir bad_mass_3mf = ''/config/work/job1''" by code_simp
  have od: "output_directory bad_mass_3mf = ''/config/work/job1/slice_output''" by code_simp
  have cp: "compose_profile bad_mass_3mf = ([], Inr ())" by code_simp
  have pa: "parse_artifact bad_mass_3mf = ([OpenArchive ''/data/model.3mf''], Inr bad_mass_metadata)"
    by code_simp
  have rep: "report bad_mass_3mf bad_mass_metadata = ([], Inl (Uncaught ValueError))"
    by (simp add: report_def estimate_bad_mass [OF env] raising_def halt_def pbind_def)
  have r: "run bad_mass_3mf =
    ([InspectArchive ''/data/model.3mf'', SweepStale, MakeDirs ''/config/work/job1'',
      MakeDirs ''/config/work/job1/slice_output'', OpenArchive ''/data/model.3mf''],
     Uncaught ValueError)"
    by (simp add: run_def main_def a b c d e p wd od cp pa rep pthen_def pbind_def emit_def
          ret_def raising_def halt_def)
  show ?thesis by (simp add: r wd)
qed

subsection \<open>The generated request identifier\<close>












subsection \<open>The cost breakdown\<close>

lemma int_truediv_binary64:
  "int_truediv a b = Inr v \<Longrightarrow> v = binary64 (of_int a / of_int b)"
  by (auto simp: int_truediv_def split: if_splits pyfloat.splits)

lemma calc_rate_rounded:
  assumes "calculate_cost_per_hour n a b = Inr (n', r)"
  shows "n' = n \<and> r = py_round (binary64 (of_int a / of_int b)) 3"
proof (cases "int_truediv a b")
  case (Inl e)
  with assms show ?thesis by (simp add: calculate_cost_per_hour_def ebind_def)
next
  case (Inr q)
  from int_truediv_binary64 [OF this] Inr assms show ?thesis
    by (simp add: calculate_cost_per_hour_def ebind_def)
qed

lemma dep_loop_foldl:
  "dep_loop t its = Inr v \<Longrightarrow> v = foldl fadd t (map rounded_rate its)"
proof (induction its arbitrary: t)
  case Nil
  then show ?case by simp
next
  case (Cons it its)
  show ?case
  proof (cases "calculate_cost_per_hour (name it) (price it) (lifespan_min it)")
    case (Inl e)
    with Cons.prems show ?thesis by (simp add: ebind_def)
  next
    case (Inr nr)
    obtain n r where nr: "nr = (n, r)" by (cases nr)
    from calc_rate_rounded [OF Inr [unfolded nr]] have r: "r = rounded_rate it"
      by (simp add: rounded_rate_def)
    from Cons.prems Inr nr have "dep_loop (fadd t r) its = Inr v" by (simp add: ebind_def)
    from Cons.IH [OF this] r show ?thesis by simp
  qed
qed

lemma estimate_costs:
  assumes "estimate w md = Inr (hours, grams, c)"
  shows "total_depreciation_cost c = fmul hours (Fin (4269412446747231 / 18014398509481984))"
    and "total_electricity_cost c = fmul hours (Fin (3458764513820541 / 576460752303423488))"
    and "total_cost c = fadd (fadd (total_depreciation_cost c) (total_electricity_cost c)) (filament_cost c)"
  using assms
  by (auto simp: estimate_def ebind_def costs_def Let_def total_dep_cost_per_hour_value
        electricity_cost_per_hour_value split: sum.splits)

lemma estimate_presliced:
  "estimate presliced_3mf sliced_metadata =
    Inr (Fin (1221601398924247 / 1125899906842624), Fin (1346857763560489 / 140737488355328),
     \<lparr>filament_cost = Fin (7926335344172073 / 72057594037927936), total_depreciation_cost = Fin (4632312504720745 / 18014398509481984),
      total_electricity_cost = Fin (3752759497495287 / 576460752303423488), total_cost = Fin (6731170075060491 / 18014398509481984)\<rparr>)"
proof -
  have env: "environ presliced_3mf = Map.empty"
    by (simp add: presliced_3mf_def sample_world_def)
  show ?thesis by (rule estimate_sliced [OF env])
qed

text \<open>
  C7, as the script has it. Each item of the table contributes its price divided by its
  lifespan, rounded to three decimals, and the rate per hour is the sum of these rounded
  values in the order of the table: 0.237 up to the rounding of the additions. The
  lifespan of the LCD screen is the literal \<open>5 * 365 * 24\<close>. The depreciation cost is
  the printing hours times that rate.
\<close>

theorem depreciation_rate:
  "total_dep_cost_per_hour = Inr (foldl fadd (Fin 0) (map rounded_rate items))
   \<and> total_dep_cost_per_hour = Inr (Fin (4269412446747231 / 18014398509481984))
   \<and> \<bar>(4269412446747231 / 18014398509481984) - 237 / 1000\<bar> < (1 / 10 ^ 16 :: rat)
   \<and> (\<forall>it \<in> set items. name it = ''LCD Screen'' \<longrightarrow> lifespan_min it = 5 * 365 * 24)
   \<and> (estimate w md = Inr (hours, grams, c)
        \<longrightarrow> total_depreciation_cost c = fmul hours (Fin (4269412446747231 / 18014398509481984)))"
proof -
  have "dep_loop (Fin 0) items = Inr (Fin (4269412446747231 / 18014398509481984))"
    using total_dep_cost_per_hour_value by (simp add: total_dep_cost_per_hour_def)
  from dep_loop_foldl [OF this]
  have a: "total_dep_cost_per_hour = Inr (foldl fadd (Fin 0) (map rounded_rate items))"
    by (simp add: total_dep_cost_per_hour_value)
  have b: "\<forall>it \<in> set items. name it = ''LCD Screen'' \<longrightarrow> lifespan_min it = 5 * 365 * 24"
    by (simp add: items_def)
  show ?thesis
    using a b estimate_costs(1) [of w md hours grams c]
    by (simp add: total_dep_cost_per_hour_value)
qed

theorem depreciation_rate_witness:
  "\<lparr>name = ''LCD Screen'', price = 60, lifespan_min = 43800\<rparr> \<in> set items
   \<and> estimate presliced_3mf sliced_metadata =
    Inr (Fin (1221601398924247 / 1125899906842624), Fin (1346857763560489 / 140737488355328),
     \<lparr>filament_cost = Fin (7926335344172073 / 72057594037927936), total_depreciation_cost = Fin (4632312504720745 / 18014398509481984),
      total_electricity_cost = Fin (3752759497495287 / 576460752303423488), total_cost = Fin (6731170075060491 / 18014398509481984)\<rparr>)
   \<and> fmul (Fin (1221601398924247 / 1125899906842624)) (Fin (4269412446747231 / 18014398509481984)) = Fin (4632312504720745 / 18014398509481984)
   \<and> total_dep_cost_per_hour = Inr (foldl fadd (Fin 0) (map rounded_rate items))"
proof -
  have i: "\<lparr>name = ''LCD Screen'', price = 60, lifespan_min = 43800\<rparr> \<in> set items"
    by (simp add: items_def)
  from depreciation_rate [of presliced_3mf sliced_metadata "Fin (1221601398924247 / 1125899906842624)" "Fin (1346857763560489 / 140737488355328)"
      "\<lparr>filament_cost = Fin (7926335344172073 / 72057594037927936), total_depreciation_cost = Fin (4632312504720745 / 18014398509481984),
      total_electricity_cost = Fin (3752759497495287 / 576460752303423488), total_cost = Fin (6731170075060491 / 18014398509481984)\<rparr>"]
    estimate_presliced i
  show ?thesis by simp
qed

text \<open>
  The rate the script computes is not the sum of price divided by lifespan: that sum is
  \<open>8737 / 36500\<close>, about 0.2394, and the rate of the script is more than 0.002 below it.
\<close>

theorem depreciation_rate_below_exact_sum:
  "total_dep_cost_per_hour = Inr (Fin (4269412446747231 / 18014398509481984))
   \<and> exact_rate_sum = 8737 / 36500
   \<and> (4269412446747231 / 18014398509481984) + 2 / 1000 < exact_rate_sum"
proof -
  have e: "exact_rate_sum = 8737 / 36500" by (simp add: exact_rate_sum_def items_def)
  show ?thesis by (simp add: total_dep_cost_per_hour_value e)
qed

text \<open>
  C4, as the script has it. The cost per hour is \<open>(105 / 1000) * 0.06\<close> rounded to three
  decimals, which is 0.006 and not 0.0063, and the electricity cost is the printing
  hours times 0.006.
\<close>

theorem electricity_cost_rounded_rate:
  "electricity_cost_per_hour = Inr (py_round (fmul (binary64 (105 / 1000)) (binary64 (6 / 100))) 3)
   \<and> electricity_cost_per_hour = Inr (Fin (3458764513820541 / 576460752303423488))
   \<and> binary64 (6 / 1000) = Fin (3458764513820541 / 576460752303423488)
   \<and> (estimate w md = Inr (hours, grams, c)
        \<longrightarrow> total_electricity_cost c = fmul hours (Fin (3458764513820541 / 576460752303423488)))"
proof -
  have l: "binary64 (3 / 500) = Fin (3458764513820541 / 576460752303423488)"
    by (rule binary64_eqI [where e = "-8" and k = "-60" and m = "6917529027641082"]) (simp_all add: pow2_def)
  obtain kw where kw: "int_truediv 105 1000 = Inr kw"
    using electricity_cost_per_hour_value
    by (cases "int_truediv 105 1000")
       (simp_all add: electricity_cost_per_hour_def calculate_electricity_cost_def
          power_consumption_watts_def ebind_def)
  from int_truediv_binary64 [OF kw] have k: "kw = binary64 (105 / 1000)" by simp
  have a: "electricity_cost_per_hour
           = Inr (py_round (fmul (binary64 (105 / 1000)) (binary64 (6 / 100))) 3)"
    using kw k
    by (simp add: electricity_cost_per_hour_def calculate_electricity_cost_def
          power_consumption_watts_def electricity_rate_per_kwh_def ebind_def)
  show ?thesis
    using a l estimate_costs(2) [of w md hours grams c]
    by (simp add: electricity_cost_per_hour_value)
qed

theorem electricity_cost_rounded_rate_witness:
  "estimate presliced_3mf sliced_metadata =
    Inr (Fin (1221601398924247 / 1125899906842624), Fin (1346857763560489 / 140737488355328),
     \<lparr>filament_cost = Fin (7926335344172073 / 72057594037927936), total_depreciation_cost = Fin (4632312504720745 / 18014398509481984),
      total_electricity_cost = Fin (3752759497495287 / 576460752303423488), total_cost = Fin (6731170075060491 / 18014398509481984)\<rparr>)
   \<and> fmul (Fin (1221601398924247 / 1125899906842624)) (Fin (3458764513820541 / 576460752303423488)) = Fin (3752759497495287 / 576460752303423488)
   \<and> electricity_cost_per_hour = Inr (Fin (3458764513820541 / 576460752303423488))"
proof -
  from electricity_cost_rounded_rate [of presliced_3mf sliced_metadata "Fin (1221601398924247 / 1125899906842624)" "Fin (1346857763560489 / 140737488355328)"
      "\<lparr>filament_cost = Fin (7926335344172073 / 72057594037927936), total_depreciation_cost = Fin (4632312504720745 / 18014398509481984),
      total_electricity_cost = Fin (3752759497495287 / 576460752303423488), total_cost = Fin (6731170075060491 / 18014398509481984)\<rparr>"]
    estimate_presliced
  show ?thesis by simp
qed

text \<open>
  For the sample archive, whose printing time is 1.085 hours, the electricity cost is
  0.00651, more than 0.0003 below the \<open>1.085 * (105 / 1000) * 0.06\<close> of the claim C4.
\<close>

theorem electricity_cost_below_unrounded_rate:
  "estimate presliced_3mf sliced_metadata =
    Inr (Fin (1221601398924247 / 1125899906842624), Fin (1346857763560489 / 140737488355328),
     \<lparr>filament_cost = Fin (7926335344172073 / 72057594037927936), total_depreciation_cost = Fin (4632312504720745 / 18014398509481984),
      total_electricity_cost = Fin (3752759497495287 / 576460752303423488), total_cost = Fin (6731170075060491 / 18014398509481984)\<rparr>)
   \<and> ((3752759497495287 / 576460752303423488) :: rat) + 3 / 10000 < (1221601398924247 / 1125899906842624) * (105 / 1000) * (6 / 100)"
  using estimate_presliced by simp




subsection \<open>The mass derived from the length\<close>





subsection \<open>The printing time of a duration\<close>

lemma takeWhile_run:
  "list_all P ds \<Longrightarrow> \<not> P v \<Longrightarrow> takeWhile P (ds @ v # rest) = ds"
  by (induction ds) simp_all

lemma dropWhile_run:
  "list_all P ds \<Longrightarrow> \<not> P v \<Longrightarrow> dropWhile P (ds @ v # rest) = v # rest"
  by (induction ds) simp_all

lemma opt_group_run:
  assumes "list_all is_digit ds" "\<not> is_digit v"
  shows "opt_group u ws (ds @ v # rest) =
     (if ds \<noteq> [] \<and> v = u then (Some ds, if ws then dropWhile py_isspace rest else rest)
      else (None, ds @ v # rest))"
  using takeWhile_run [OF assms] dropWhile_run [OF assms]
  by (simp add: opt_group_def Let_def)

lemma opt_group_Nil: "opt_group u ws [] = (None, [])"
  by (simp add: opt_group_def)

lemma digit_not_space: "is_digit c \<Longrightarrow> \<not> py_isspace c"
  by (auto simp: is_digit_def py_isspace_def Let_def)

lemma dropWhile_space_digits:
  "ds \<noteq> [] \<Longrightarrow> list_all is_digit ds \<Longrightarrow> dropWhile py_isspace (ds @ r) = ds @ r"
  by (cases ds) (simp_all add: digit_not_space)

lemma unit_chars:
  "\<not> is_digit (CHR ''d'')" "\<not> is_digit (CHR ''h'')" "\<not> is_digit (CHR ''m'')" "\<not> is_digit (CHR ''s'')"
  "py_isspace (CHR '' '')"
  by (simp_all add: is_digit_def py_isspace_def)

lemma duration_groups_text:
  assumes "digits d" "digits h" "digits m" "digits s"
  shows "duration_groups (duration_text d h m s) = (d, h, m, s)"
  using assms
  by (cases d; cases h; cases m; cases s)
     (simp_all add: duration_text_def component_def digits_def duration_groups_def
        opt_group_run opt_group_Nil unit_chars dropWhile_space_digits)

lemma round_half_even_close: "\<bar>of_int (round_half_even y) - y\<bar> \<le> 1 / 2"
proof -
  define f where "f = \<lfloor>y\<rfloor>"
  have a: "of_int f \<le> y" and b: "y < of_int f + 1" unfolding f_def by linarith+
  consider "y - of_int f < 1 / 2" | "1 / 2 < y - of_int f" | "y - of_int f = 1 / 2" by linarith
  then show ?thesis
  proof cases
    case 1
    then have "round_half_even y = f" by (simp add: round_half_even_def Let_def f_def)
    then show ?thesis using a 1 by simp
  next
    case 2
    then have "round_half_even y = f + 1" by (simp add: round_half_even_def Let_def f_def)
    then show ?thesis using b 2 by simp
  next
    case 3
    then have "round_half_even y = f \<or> round_half_even y = f + 1"
      by (simp add: round_half_even_def Let_def f_def)
    then show ?thesis using 3 by auto
  qed
qed

lemma binary64_finite:
  assumes "\<bar>x\<bar> < pow2 1023"
  shows "\<exists>y. binary64 x = Fin y"
proof (cases "x = 0")
  case True
  then show ?thesis by (simp add: binary64_def)
next
  case False
  define e where "e = ilog2 x"
  define k where "k = max (e - 52) (- 1074)"
  define m where "m = round_half_even (x / pow2 k)"
  from ilog2_bounds [OF False] have lo: "pow2 e \<le> \<bar>x\<bar>" by (simp add: e_def)
  have e: "e < 1023"
  proof (rule ccontr)
    assume "\<not> e < 1023"
    then have "pow2 1023 \<le> pow2 e" by (intro pow2_mono) simp
    with lo assms show False by simp
  qed
  have k: "k \<le> 970" using e by (simp add: k_def)
  have q: "0 < pow2 k" by (rule pow2_pos)
  have "\<bar>of_int m - x / pow2 k\<bar> \<le> 1 / 2" unfolding m_def by (rule round_half_even_close)
  then have "\<bar>of_int m - x / pow2 k\<bar> * pow2 k \<le> 1 / 2 * pow2 k"
    using q by (intro mult_right_mono) simp_all
  moreover have "\<bar>of_int m - x / pow2 k\<bar> * pow2 k = \<bar>of_int m * pow2 k - x\<bar>"
  proof -
    have "\<bar>of_int m - x / pow2 k\<bar> * pow2 k = \<bar>(of_int m - x / pow2 k) * pow2 k\<bar>"
      using q by (simp add: abs_mult)
    also have "(of_int m - x / pow2 k) * pow2 k = of_int m * pow2 k - x"
      using q by (simp add: field_simps)
    finally show ?thesis .
  qed
  ultimately have d: "\<bar>of_int m * pow2 k - x\<bar> \<le> 1 / 2 * pow2 k" by simp
  have "pow2 k \<le> pow2 970" using k by (rule pow2_mono)
  with d have "\<bar>of_int m * pow2 k - x\<bar> \<le> 1 / 2 * pow2 970" by simp
  then have "\<bar>of_int m * pow2 k\<bar> \<le> \<bar>x\<bar> + 1 / 2 * pow2 970" by linarith
  also have "\<dots> < pow2 1023 + 1 / 2 * pow2 970" using assms by simp
  also have "\<dots> \<le> pow2 1024" by (simp add: pow2_def)
  finally have "\<not> pow2 1024 \<le> \<bar>of_int m * pow2 k\<bar>" by simp
  then show ?thesis
    using False by (simp add: binary64_def Let_def e_def [symmetric] k_def [symmetric] m_def [symmetric])
qed

lemma float_of_int_finite:
  assumes "\<bar>n\<bar> < 2 ^ 1023"
  shows "\<exists>y. float_of_int n = Inr (Fin y)"
proof -
  have "(of_int \<bar>n\<bar> :: rat) < of_int (2 ^ 1023)" using assms by (simp only: of_int_less_iff)
  then have "\<bar>of_int n :: rat\<bar> < pow2 1023" by (simp add: pow2_def)
  from binary64_finite [OF this] show ?thesis by (auto simp: float_of_int_def)
qed

lemma int_truediv_finite:
  assumes "0 < b" "\<bar>a\<bar> < 2 ^ 1023"
  shows "\<exists>y. int_truediv a b = Inr (Fin y)"
proof -
  have a: "(of_int \<bar>a\<bar> :: rat) < of_int (2 ^ 1023)" using assms(2) by (simp only: of_int_less_iff)
  have "(1::rat) \<le> of_int b" using assms(1) by simp
  then have "\<bar>of_int a / of_int b :: rat\<bar> \<le> \<bar>of_int a\<bar>"
    using assms(1) by (simp add: divide_le_eq mult_le_cancel_left1)
  also have "\<dots> < pow2 1023" using a by (simp add: pow2_def)
  finally have "\<bar>of_int a / of_int b :: rat\<bar> < pow2 1023" .
  from binary64_finite [OF this] show ?thesis using assms(1) by (auto simp: int_truediv_def)
qed

lemma hours_expr_returns:
  assumes "\<bar>days * 24 + hours\<bar> < 2 ^ 1023" "\<bar>minutes\<bar> < 2 ^ 1023" "\<bar>seconds\<bar> < 2 ^ 1023"
  shows "\<exists>x. hours_expr days hours minutes seconds = Inr x"
proof -
  obtain qm where qm: "int_truediv minutes 60 = Inr (Fin qm)"
    using int_truediv_finite [of 60 minutes] assms(2) by auto
  obtain dh where dh: "float_of_int (days * 24 + hours) = Inr (Fin dh)"
    using float_of_int_finite [OF assms(1)] by auto
  obtain qs where qs: "int_truediv seconds 3600 = Inr (Fin qs)"
    using int_truediv_finite [of 3600 seconds] assms(3) by auto
  show ?thesis by (simp add: hours_expr_def ebind_def qm dh qs)
qed

text \<open>
  Rounding to a double moves a positive value in the normal range by at most the
  fraction \<open>1 / 2 ^ 53\<close> of it, and the error of a sum of two approximations is bounded
  accordingly. The three roundings of the printing time (the two quotients, then the
  two sums) stay within the fraction \<open>1 / 2 ^ 51\<close> of the exact value.
\<close>

lemma binary64_relative:
  assumes "pow2 (- 1022) \<le> x" "x < pow2 1023"
  shows "\<exists>y. binary64 x = Fin y \<and> \<bar>y - x\<bar> \<le> x * pow2 (- 53)"
proof -
  have xpos: "0 < x" using assms(1) pow2_pos [of "- 1022"] by linarith
  then have nz: "x \<noteq> 0" and ax: "\<bar>x\<bar> = x" by simp_all
  define e where "e = ilog2 x"
  define k where "k = max (e - 52) (- 1074)"
  define m where "m = round_half_even (x / pow2 k)"
  from ilog2_bounds [OF nz] have lo: "pow2 e \<le> x" and hi: "x < pow2 (e + 1)"
    by (simp_all add: e_def ax)
  have e1: "- 1022 \<le> e"
  proof (rule ccontr)
    assume "\<not> - 1022 \<le> e"
    then have "pow2 (e + 1) \<le> pow2 (- 1022)" by (intro pow2_mono) simp
    with hi assms(1) show False by simp
  qed
  have e2: "e < 1023"
  proof (rule ccontr)
    assume "\<not> e < 1023"
    then have "pow2 1023 \<le> pow2 e" by (intro pow2_mono) simp
    with lo assms(2) show False by simp
  qed
  have k: "k = e - 52" using e1 by (simp add: k_def)
  have q: "0 < pow2 k" by (rule pow2_pos)
  have "\<bar>of_int m - x / pow2 k\<bar> \<le> 1 / 2" unfolding m_def by (rule round_half_even_close)
  then have "\<bar>of_int m - x / pow2 k\<bar> * pow2 k \<le> 1 / 2 * pow2 k"
    using q by (intro mult_right_mono) simp_all
  moreover have "\<bar>of_int m - x / pow2 k\<bar> * pow2 k = \<bar>of_int m * pow2 k - x\<bar>"
  proof -
    have "\<bar>of_int m - x / pow2 k\<bar> * pow2 k = \<bar>(of_int m - x / pow2 k) * pow2 k\<bar>"
      using q by (simp add: abs_mult)
    also have "(of_int m - x / pow2 k) * pow2 k = of_int m * pow2 k - x"
      using q by (simp add: field_simps)
    finally show ?thesis .
  qed
  ultimately have d: "\<bar>of_int m * pow2 k - x\<bar> \<le> 1 / 2 * pow2 k" by simp
  have "1 / 2 * pow2 k = pow2 (- 1) * pow2 k" by (simp add: pow2_def)
  also have "\<dots> = pow2 (e + (- 53))" unfolding k by (simp flip: pow2_add)
  also have "\<dots> = pow2 e * pow2 (- 53)" by (rule pow2_add)
  also have "\<dots> \<le> x * pow2 (- 53)" using lo pow2_pos [of "- 53"] by simp
  finally have half: "1 / 2 * pow2 k \<le> x * pow2 (- 53)" .
  with d have err: "\<bar>of_int m * pow2 k - x\<bar> \<le> x * pow2 (- 53)" by simp
  have "x * pow2 (- 53) \<le> x" using xpos by (simp add: pow2_def)
  with err have "\<bar>of_int m * pow2 k\<bar> \<le> 2 * x" by linarith
  also have "\<dots> < 2 * pow2 1023" using assms(2) by simp
  also have "\<dots> = pow2 1024" by (simp add: pow2_def)
  finally have "\<not> pow2 1024 \<le> \<bar>of_int m * pow2 k\<bar>" by simp
  then have "binary64 x = Fin (of_int m * pow2 k)"
    using nz by (simp add: binary64_def Let_def e_def [symmetric] k_def [symmetric] m_def [symmetric])
  with err show ?thesis by blast
qed

lemma binary64_relative0:
  assumes "x = 0 \<or> (pow2 (- 1022) \<le> x \<and> x < pow2 1023)"
  shows "\<exists>y. binary64 x = Fin y \<and> \<bar>y - x\<bar> \<le> x * pow2 (- 53)"
  using assms binary64_relative [of x] by (auto simp: binary64_zero)

lemma fadd_relative:
  assumes A: "0 \<le> A" and B: "0 \<le> B"
    and a: "\<bar>a - A\<bar> \<le> eps * A" and b: "\<bar>b - B\<bar> \<le> eps * B"
    and eps: "0 \<le> eps" "eps \<le> 1 / 2"
    and range: "A + B = 0 \<or> (pow2 (- 1021) \<le> A + B \<and> A + B < pow2 1022)"
  shows "\<exists>y. fadd (Fin a) (Fin b) = Fin y
           \<and> \<bar>y - (A + B)\<bar> \<le> (eps + pow2 (- 53) * (1 + eps)) * (A + B)"
proof -
  have e0: "eps * (A + B) = eps * A + eps * B" by (simp add: algebra_simps)
  have s: "\<bar>(a + b) - (A + B)\<bar> \<le> eps * (A + B)"
    unfolding e0 using a b by linarith
  have e1: "(1 + eps) * (A + B) = (A + B) + eps * (A + B)"
    and e2: "(1 - eps) * (A + B) = (A + B) - eps * (A + B)"
    by (simp_all add: algebra_simps)
  have up: "a + b \<le> (1 + eps) * (A + B)" unfolding e1 using s by linarith
  have dn: "(1 - eps) * (A + B) \<le> a + b" unfolding e2 using s by linarith
  have r: "a + b = 0 \<or> (pow2 (- 1022) \<le> a + b \<and> a + b < pow2 1023)"
  proof (cases "A + B = 0")
    case True
    with s show ?thesis by simp
  next
    case False
    with range have lo: "pow2 (- 1021) \<le> A + B" and hi: "A + B < pow2 1022" by simp_all
    have "pow2 (- 1022) = 1 / 2 * pow2 (- 1021)" by (simp add: pow2_def)
    also have "\<dots> \<le> 1 / 2 * (A + B)" using lo by simp
    also have "\<dots> \<le> (1 - eps) * (A + B)"
      using eps A B by (intro mult_right_mono) simp_all
    finally have l: "pow2 (- 1022) \<le> a + b" using dn by simp
    have "(1 + eps) * (A + B) \<le> (3 / 2) * (A + B)"
      using eps A B by (intro mult_right_mono) simp_all
    also have "\<dots> < (3 / 2) * pow2 1022" using hi by simp
    also have "\<dots> \<le> pow2 1023" by (simp add: pow2_def)
    finally have "a + b < pow2 1023" using up by simp
    with l show ?thesis by simp
  qed
  from binary64_relative0 [OF r] obtain y where
    y: "binary64 (a + b) = Fin y" "\<bar>y - (a + b)\<bar> \<le> (a + b) * pow2 (- 53)" by blast
  have p: "0 \<le> pow2 (- 53)" using pow2_pos [of "- 53"] by simp
  have "(a + b) * pow2 (- 53) \<le> ((1 + eps) * (A + B)) * pow2 (- 53)"
    using up p by (rule mult_right_mono)
  with y(2) have "\<bar>y - (a + b)\<bar> \<le> pow2 (- 53) * (1 + eps) * (A + B)"
    by (simp add: mult.commute mult.left_commute)
  with s have "\<bar>y - (A + B)\<bar> \<le> eps * (A + B) + pow2 (- 53) * (1 + eps) * (A + B)"
    by linarith
  then have "\<bar>y - (A + B)\<bar> \<le> (eps + pow2 (- 53) * (1 + eps)) * (A + B)"
    by (simp add: algebra_simps)
  then show ?thesis using y(1) by (simp add: fadd.simps)
qed


lemma quotient_range:
  assumes "0 \<le> a" "a < 10 ^ 300" "0 < b" "b \<le> 3600"
  shows "(of_int a / of_int b :: rat) = 0
     \<or> (1 / 3600 \<le> (of_int a / of_int b :: rat) \<and> (of_int a / of_int b :: rat) < 10 ^ 300)"
proof (cases "a = 0")
  case True
  then show ?thesis by simp
next
  case False
  with assms(1) have "1 \<le> a" by simp
  then have a1: "(1::rat) \<le> of_int a" by simp
  have b0: "(0::rat) < of_int b" using assms(3) by simp
  have b1: "(1::rat) \<le> of_int b" using assms(3) by simp
  have b2: "(of_int b :: rat) \<le> 3600"
  proof -
    have "(of_int b :: rat) \<le> of_int 3600" using assms(4) by (simp only: of_int_le_iff)
    then show ?thesis by simp
  qed
  have "(1 / 3600 :: rat) \<le> 1 / of_int b" using b0 b2 by (simp add: field_simps)
  also have "\<dots> \<le> of_int a / of_int b" using a1 b0 by (simp add: divide_right_mono)
  finally have lo: "(1 / 3600 :: rat) \<le> of_int a / of_int b" .
  have "(of_int a :: rat) < of_int (10 ^ 300)" using assms(2) by (simp only: of_int_less_iff)
  then have a2: "(of_int a :: rat) < 10 ^ 300" by simp
  have "(of_int a / of_int b :: rat) \<le> of_int a / 1"
    using b1 assms(1) by (intro divide_left_mono) simp_all
  with a2 have "(of_int a / of_int b :: rat) < 10 ^ 300" by simp
  with lo show ?thesis by simp
qed

lemma int_truediv_relative:
  assumes "0 \<le> a" "a < 10 ^ 300" "0 < b" "b \<le> 3600"
  shows "\<exists>y. int_truediv a b = Inr (Fin y)
     \<and> \<bar>y - of_int a / of_int b\<bar> \<le> pow2 (- 53) * (of_int a / of_int b)"
proof -
  have l: "pow2 (- 1022) \<le> (1 / 3600 :: rat)" by (simp add: pow2_def)
  have h: "(10 ^ 300 :: rat) \<le> pow2 1023" by (simp add: pow2_def)
  from quotient_range [OF assms]
  have "(of_int a / of_int b :: rat) = 0
     \<or> (pow2 (- 1022) \<le> (of_int a / of_int b :: rat) \<and> (of_int a / of_int b :: rat) < pow2 1023)"
    using l h by linarith
  from binary64_relative0 [OF this] obtain y where
    "binary64 (of_int a / of_int b) = Fin y"
    "\<bar>y - of_int a / of_int b\<bar> \<le> (of_int a / of_int b) * pow2 (- 53)" by blast
  then show ?thesis using assms(3) by (simp add: int_truediv_def mult.commute)
qed

lemma float_of_int_relative:
  assumes "0 \<le> n" "n < 25 * 10 ^ 300"
  shows "\<exists>y. float_of_int n = Inr (Fin y) \<and> \<bar>y - of_int n\<bar> \<le> pow2 (- 53) * of_int n"
proof -
  have l: "pow2 (- 1022) \<le> (1 :: rat)" by (simp add: pow2_def)
  have h: "(25 * 10 ^ 300 :: rat) \<le> pow2 1023" by (simp add: pow2_def)
  have "(of_int n :: rat) < of_int (25 * 10 ^ 300)" using assms(2) by (simp only: of_int_less_iff)
  then have u: "(of_int n :: rat) < 25 * 10 ^ 300" by simp
  have "n = 0 \<or> 1 \<le> n" using assms(1) by linarith
  then have "(of_int n :: rat) = 0 \<or> (1::rat) \<le> of_int n" by auto
  with l h u have "(of_int n :: rat) = 0
     \<or> (pow2 (- 1022) \<le> (of_int n :: rat) \<and> (of_int n :: rat) < pow2 1023)"
    by linarith
  from binary64_relative0 [OF this] obtain y where
    "binary64 (of_int n) = Fin y" "\<bar>y - of_int n\<bar> \<le> of_int n * pow2 (- 53)" by blast
  then show ?thesis by (simp add: float_of_int_def mult.commute)
qed

lemma hours_expr_accuracy:
  assumes dh: "0 \<le> days * 24 + hours" "days * 24 + hours < 25 * 10 ^ 300"
    and m: "0 \<le> minutes" "minutes < 10 ^ 300"
    and s: "0 \<le> seconds" "seconds < 10 ^ 300"
  shows "\<exists>x. hours_expr days hours minutes seconds = Inr (Fin x)
     \<and> \<bar>x - (of_int (days * 24 + hours) + of_int minutes / 60 + of_int seconds / 3600)\<bar>
         \<le> (of_int (days * 24 + hours) + of_int minutes / 60 + of_int seconds / 3600) / 2 ^ 51"
proof -
  define A :: rat where "A = of_int (days * 24 + hours)"
  define B :: rat where "B = of_int minutes / 60"
  define C :: rat where "C = of_int seconds / 3600"
  define u :: rat where "u = pow2 (- 53)"
  have u: "u = 1 / 2 ^ 53" by (simp add: u_def pow2_def)
  have u0: "0 \<le> u" "u \<le> 1 / 2" by (simp_all add: u)
  define v :: rat where "v = u + u * (1 + u)"
  have v0: "0 \<le> v" "v \<le> 1 / 2" "u \<le> v" by (simp_all add: v_def u)
  have w: "v + u * (1 + v) \<le> 1 / 2 ^ 51" by (simp add: v_def u)
  have A0: "0 \<le> A" using dh(1) by (simp add: A_def)
  have B0: "0 \<le> B" using m(1) by (simp add: B_def)
  have C0: "0 \<le> C" using s(1) by (simp add: C_def)
  obtain a where a: "float_of_int (days * 24 + hours) = Inr (Fin a)" "\<bar>a - A\<bar> \<le> u * A"
    using float_of_int_relative [OF dh] unfolding A_def u_def by blast
  obtain b where b: "int_truediv minutes 60 = Inr (Fin b)" "\<bar>b - B\<bar> \<le> u * B"
    using int_truediv_relative [OF m, of 60] unfolding B_def u_def by auto
  obtain c where c: "int_truediv seconds 3600 = Inr (Fin c)" "\<bar>c - C\<bar> \<le> u * C"
    using int_truediv_relative [OF s, of 3600] unfolding C_def u_def by auto
  have Al: "A = 0 \<or> 1 \<le> A" "A < 25 * 10 ^ 300"
  proof -
    have "days * 24 + hours = 0 \<or> 1 \<le> days * 24 + hours" using dh(1) by linarith
    then show "A = 0 \<or> 1 \<le> A" unfolding A_def by auto
    have "(of_int (days * 24 + hours) :: rat) < of_int (25 * 10 ^ 300)"
      using dh(2) by (simp only: of_int_less_iff)
    then show "A < 25 * 10 ^ 300" unfolding A_def by simp
  qed
  have Bl: "B = 0 \<or> (1 / 3600 \<le> B \<and> B < 10 ^ 300)"
    using quotient_range [OF m, of 60] unfolding B_def by simp
  have Cl: "C = 0 \<or> (1 / 3600 \<le> C \<and> C < 10 ^ 300)"
    using quotient_range [OF s, of 3600] unfolding C_def by simp
  have l: "pow2 (- 1021) \<le> (1 / 3600 :: rat)" by (simp add: pow2_def)
  have h: "(27 * 10 ^ 300 :: rat) \<le> pow2 1022" by (simp add: pow2_def)
  have r1: "A + B = 0 \<or> (pow2 (- 1021) \<le> A + B \<and> A + B < pow2 1022)"
    using Al Bl A0 B0 l h by linarith
  have r2: "(A + B) + C = 0 \<or> (pow2 (- 1021) \<le> (A + B) + C \<and> (A + B) + C < pow2 1022)"
    using Al Bl Cl A0 B0 C0 l h by linarith
  obtain y where y: "fadd (Fin a) (Fin b) = Fin y" "\<bar>y - (A + B)\<bar> \<le> v * (A + B)"
    using fadd_relative [OF A0 B0 a(2) b(2) u0 r1 [unfolded u_def [symmetric]]]
    unfolding v_def u_def by blast
  have "u * C \<le> v * C" using v0(3) C0 by (rule mult_right_mono)
  with c(2) have c': "\<bar>c - C\<bar> \<le> v * C" by linarith
  have AB0: "0 \<le> A + B" using A0 B0 by simp
  obtain x where x: "fadd (Fin y) (Fin c) = Fin x"
    "\<bar>x - ((A + B) + C)\<bar> \<le> (v + u * (1 + v)) * ((A + B) + C)"
    using fadd_relative [OF AB0 C0 y(2) c' v0(1) v0(2) r2] unfolding u_def by blast
  have "(v + u * (1 + v)) * ((A + B) + C) \<le> (1 / 2 ^ 51) * ((A + B) + C)"
    using w AB0 C0 by (intro mult_right_mono) simp_all
  with x(2) have "\<bar>x - ((A + B) + C)\<bar> \<le> ((A + B) + C) / 2 ^ 51" by simp
  moreover have "hours_expr days hours minutes seconds = Inr (Fin x)"
    by (simp add: hours_expr_def ebind_def a(1) b(1) c(1) y(1) x(1))
  ultimately show ?thesis unfolding A_def B_def C_def by blast
qed

lemma foldl_digits_bound:
  "list_all is_digit ds \<Longrightarrow> 0 \<le> a \<Longrightarrow>
     0 \<le> foldl (\<lambda>a c. 10 * a + digit_val c) a ds
     \<and> foldl (\<lambda>a c. 10 * a + digit_val c) a ds < (a + 1) * 10 ^ length ds"
proof (induction ds arbitrary: a)
  case Nil
  then show ?case by simp
next
  case (Cons c ds)
  have "48 \<le> (of_char c :: nat)" "(of_char c :: nat) \<le> 57"
    using Cons.prems(1) by (simp_all add: is_digit_def Let_def)
  then have "48 \<le> int (of_char c)" "int (of_char c) \<le> 57" by simp_all
  moreover have "(of_char c :: int) = int (of_char c)" by (simp only: of_nat_of_char)
  ultimately have c: "0 \<le> digit_val c" "digit_val c \<le> 9"
    unfolding digit_val_def by linarith+
  have p: "0 \<le> 10 * a + digit_val c" using Cons.prems(2) c by simp
  from Cons.IH [OF _ p] Cons.prems(1)
  have ih: "0 \<le> foldl (\<lambda>a c. 10 * a + digit_val c) (10 * a + digit_val c) ds"
    "foldl (\<lambda>a c. 10 * a + digit_val c) (10 * a + digit_val c) ds
       < (10 * a + digit_val c + 1) * 10 ^ length ds"
    by simp_all
  have "(10 * a + digit_val c + 1) * 10 ^ length ds \<le> (10 * (a + 1)) * 10 ^ length ds"
    using c by (intro mult_right_mono) simp_all
  also have "\<dots> = (a + 1) * 10 ^ length (c # ds)" by simp
  finally have "foldl (\<lambda>a c. 10 * a + digit_val c) (10 * a + digit_val c) ds
      < (a + 1) * 10 ^ length (c # ds)"
    using ih(2) by linarith
  with ih(1) show ?case by simp
qed

lemma dec_value_bound:
  assumes "list_all is_digit ds" "length ds \<le> n"
  shows "0 \<le> dec_value ds \<and> dec_value ds < 10 ^ n"
proof -
  from foldl_digits_bound [OF assms(1), of 0]
  have a: "0 \<le> dec_value ds" and b: "dec_value ds < 10 ^ length ds"
    by (simp_all add: dec_value_def)
  have "(10::int) ^ length ds \<le> 10 ^ n" using assms(2) by (intro power_increasing) simp_all
  with a b show ?thesis by linarith
qed

lemma group_int_bound:
  assumes "digits g" "at_most_digits 300 g"
  shows "0 \<le> group_int g \<and> group_int g < 10 ^ 300"
proof (cases g)
  case None
  then show ?thesis by (simp add: group_int_def)
next
  case (Some ds)
  with assms have "list_all is_digit ds" "length ds \<le> 300"
    by (simp_all add: digits_def at_most_digits_def)
  from dec_value_bound [OF this] Some show ?thesis by (simp add: group_int_def)
qed

lemma hours_of_digits_returns:
  assumes "digits d" "digits h" "digits m" "digits s"
    "at_most_digits 300 d" "at_most_digits 300 h" "at_most_digits 300 m" "at_most_digits 300 s"
  shows "\<exists>x. hours_expr (group_int d) (group_int h) (group_int m) (group_int s) = Inr x"
proof -
  note b = group_int_bound [OF assms(1) assms(5)] group_int_bound [OF assms(2) assms(6)]
    group_int_bound [OF assms(3) assms(7)] group_int_bound [OF assms(4) assms(8)]
  have big: "(25::int) * 10 ^ 300 < 2 ^ 1023" by simp
  have "\<bar>group_int d * 24 + group_int h\<bar> < 2 ^ 1023" using b(1,2) big by simp
  moreover have "\<bar>group_int m\<bar> < 2 ^ 1023" using b(3) big by simp
  moreover have "\<bar>group_int s\<bar> < 2 ^ 1023" using b(4) big by simp
  ultimately show ?thesis by (rule hours_expr_returns)
qed

lemma hours_of_digits_accuracy:
  assumes "digits d" "digits h" "digits m" "digits s"
    "at_most_digits 300 d" "at_most_digits 300 h" "at_most_digits 300 m" "at_most_digits 300 s"
  shows "\<exists>x. hours_expr (group_int d) (group_int h) (group_int m) (group_int s) = Inr (Fin x)
     \<and> \<bar>x - exact_hours (group_int d) (group_int h) (group_int m) (group_int s)\<bar>
         \<le> exact_hours (group_int d) (group_int h) (group_int m) (group_int s) / 2 ^ 51"
proof -
  note b = group_int_bound [OF assms(1) assms(5)] group_int_bound [OF assms(2) assms(6)]
    group_int_bound [OF assms(3) assms(7)] group_int_bound [OF assms(4) assms(8)]
  have "0 \<le> group_int d * 24 + group_int h" using b(1,2) by simp
  moreover have "group_int d * 24 + group_int h < 25 * 10 ^ 300" using b(1,2) by simp
  ultimately show ?thesis
    unfolding exact_hours_def
    using b(3,4) by (intro hours_expr_accuracy) simp_all
qed

lemma hours_of_duration:
  assumes "digits d" "digits h" "digits m" "digits s"
    and "after_first ''total estimated time: '' line = Some (duration_text d h m s)"
  shows "Total_printing_hours (Some line)
           = hours_expr (group_int d) (group_int h) (group_int m) (group_int s)"
proof -
  have "line \<noteq> []" using assms(5) by auto
  then show ?thesis
    using assms(5) duration_groups_text [OF assms(1-4)]
    by (simp add: Total_printing_hours_def del: after_first.simps)
qed

lemma hours_1d_2h_3m_4s:
  "Total_printing_hours (Some ''; model printing time: 1d 1h 2m 3s; total estimated time: 1d 2h 3m 4s'') = Inr (Fin (916591986660839 / 35184372088832))"
proof -
  have f0: "after_first ''total estimated time: '' ''; model printing time: 1d 1h 2m 3s; total estimated time: 1d 2h 3m 4s'' = Some ''1d 2h 3m 4s''"
    by code_simp
  have f1: "duration_groups ''1d 2h 3m 4s'' = (Some ''1'', Some ''2'', Some ''3'', Some ''4'')"
    by code_simp
  have f2: "dec_value ''1'' = 1"
    by code_simp
  have f3: "dec_value ''2'' = 2"
    by code_simp
  have f4: "dec_value ''3'' = 3"
    by code_simp
  have f5: "dec_value ''4'' = 4"
    by code_simp
  have f6: "int_truediv 3 60 = Inr (Fin (3602879701896397 / 72057594037927936))"
    by (rule int_truediv_cert [where e = "-5" and k = "-57" and m = "7205759403792794"]) (simp_all add: pow2_def)
  have f7: "float_of_int 26 = Inr (Fin 26)"
    by (rule float_of_int_cert [where e = "4" and k = "-48" and m = "7318349394477056"]) (simp_all add: pow2_def)
  have f8: "int_truediv 4 3600 = Inr (Fin (5124095576030431 / 4611686018427387904))"
    by (rule int_truediv_cert [where e = "-10" and k = "-62" and m = "5124095576030431"]) (simp_all add: pow2_def)
  have f9: "fadd (Fin 26) (Fin (3602879701896397 / 72057594037927936)) = Fin (7332423143312589 / 281474976710656)"
    by (rule fadd_cert [where e = "4" and k = "-48" and m = "7332423143312589"]) (simp_all add: pow2_def)
  have f10: "fadd (Fin (7332423143312589 / 281474976710656)) (Fin (5124095576030431 / 4611686018427387904)) = Fin (916591986660839 / 35184372088832)"
    by (rule fadd_cert [where e = "4" and k = "-48" and m = "7332735893286712"]) (simp_all add: pow2_def)
  show ?thesis
    by (simp add: Total_printing_hours_def group_int_def hours_expr_def ebind_def
          f0 f1 f2 f3 f4 f5 f6 f7 f8 f9 f10
          del: after_first.simps)
qed

lemma hours_45s:
  "Total_printing_hours (Some ''; model printing time: 40s; total estimated time: 45s'') = Inr (Fin (3602879701896397 / 288230376151711744))"
proof -
  have f0: "after_first ''total estimated time: '' ''; model printing time: 40s; total estimated time: 45s'' = Some ''45s''"
    by code_simp
  have f1: "duration_groups ''45s'' = (None, None, None, Some ''45'')"
    by code_simp
  have f2: "dec_value ''45'' = 45"
    by code_simp
  have f3: "int_truediv 0 60 = Inr (Fin 0)"
    by (rule int_truediv_zero) simp
  have f4: "float_of_int 0 = Inr (Fin 0)"
    by (rule float_of_int_zero)
  have f5: "int_truediv 45 3600 = Inr (Fin (3602879701896397 / 288230376151711744))"
    by (rule int_truediv_cert [where e = "-7" and k = "-59" and m = "7205759403792794"]) (simp_all add: pow2_def)
  have f6: "fadd (Fin 0) (Fin 0) = Fin 0"
    by (rule fadd_zero_cert) simp
  have f7: "fadd (Fin 0) (Fin (3602879701896397 / 288230376151711744)) = Fin (3602879701896397 / 288230376151711744)"
    by (rule fadd_cert [where e = "-7" and k = "-59" and m = "7205759403792794"]) (simp_all add: pow2_def)
  show ?thesis
    by (simp add: Total_printing_hours_def group_int_def hours_expr_def ebind_def
          f0 f1 f2 f3 f4 f5 f6 f7
          del: after_first.simps)
qed

lemma hours_empty_duration:
  "Total_printing_hours (Some ''; model printing time: ; total estimated time: '') = Inr (Fin 0)"
proof -
  have f0: "after_first ''total estimated time: '' ''; model printing time: ; total estimated time: '' = Some ''''"
    by code_simp
  have f1: "duration_groups '''' = (None, None, None, None)"
    by code_simp
  have f2: "int_truediv 0 60 = Inr (Fin 0)"
    by (rule int_truediv_zero) simp
  have f3: "float_of_int 0 = Inr (Fin 0)"
    by (rule float_of_int_zero)
  have f4: "int_truediv 0 3600 = Inr (Fin 0)"
    by (rule int_truediv_zero) simp
  have f5: "fadd (Fin 0) (Fin 0) = Fin 0"
    by (rule fadd_zero_cert) simp
  show ?thesis
    by (simp add: Total_printing_hours_def group_int_def hours_expr_def ebind_def
          f0 f1 f2 f3 f4 f5
          del: after_first.simps)
qed

lemma hours_no_line:
  "Total_printing_hours (Some []) = Inr (Fin 0) \<and> Total_printing_hours None = Inr (Fin 0)"
  by (simp add: Total_printing_hours_def)

text \<open>
  C2, as the script has it. When the text after the first \<^verbatim>\<open>total estimated time: \<close> of
  the header line is a duration of the form \<^verbatim>\<open><days>d <hours>h <minutes>m <seconds>s\<close>, each
  component optional, the printing time is the value of
  \<^verbatim>\<open>days * 24 + hours + minutes / 60 + seconds / 3600\<close> on the components read as decimal
  numbers, an absent one as 0; with components of at most 300 digits it is a float
  within the fraction \<open>1 / 2 ^ 51\<close> of the exact value of that expression.
  \<^verbatim>\<open>1d 2h 3m 4s\<close> gives 26.051111111111112 hours, that is \<open>26 + 3 / 60 + 4 / 3600\<close> up
  to rounding, \<^verbatim>\<open>45s\<close> gives 0.0125 hours, and an empty duration, an empty line or a missing
  line gives 0 hours.
\<close>

theorem printing_hours_of_duration:
  "(digits d \<and> digits h \<and> digits m \<and> digits s
      \<and> after_first ''total estimated time: '' line = Some (duration_text d h m s)
     \<longrightarrow> Total_printing_hours (Some line)
           = hours_expr (group_int d) (group_int h) (group_int m) (group_int s)
         \<and> (at_most_digits 300 d \<and> at_most_digits 300 h \<and> at_most_digits 300 m
              \<and> at_most_digits 300 s
             \<longrightarrow> (\<exists>x. Total_printing_hours (Some line) = Inr (Fin x)
                    \<and> \<bar>x - exact_hours (group_int d) (group_int h) (group_int m) (group_int s)\<bar>
                        \<le> exact_hours (group_int d) (group_int h) (group_int m) (group_int s) / 2 ^ 51)))
   \<and> Total_printing_hours (Some ''; model printing time: 1d 1h 2m 3s; total estimated time: 1d 2h 3m 4s'') = Inr (Fin (916591986660839 / 35184372088832))
   \<and> \<bar>(916591986660839 / 35184372088832) - (1 * 24 + 2 + 3 / 60 + 4 / 3600)\<bar> < (1 / 10 ^ 14 :: rat)
   \<and> Total_printing_hours (Some ''; model printing time: 40s; total estimated time: 45s'') = Inr (Fin (3602879701896397 / 288230376151711744))
   \<and> binary64 (125 / 10000) = Fin (3602879701896397 / 288230376151711744)
   \<and> Total_printing_hours (Some ''; model printing time: ; total estimated time: '') = Inr (Fin 0)
   \<and> Total_printing_hours (Some []) = Inr (Fin 0)
   \<and> Total_printing_hours None = Inr (Fin 0)"
proof -
  have g: "digits d \<and> digits h \<and> digits m \<and> digits s
      \<and> after_first ''total estimated time: '' line = Some (duration_text d h m s)
     \<longrightarrow> Total_printing_hours (Some line)
           = hours_expr (group_int d) (group_int h) (group_int m) (group_int s)
         \<and> (at_most_digits 300 d \<and> at_most_digits 300 h \<and> at_most_digits 300 m
              \<and> at_most_digits 300 s
             \<longrightarrow> (\<exists>x. Total_printing_hours (Some line) = Inr (Fin x)
                    \<and> \<bar>x - exact_hours (group_int d) (group_int h) (group_int m) (group_int s)\<bar>
                        \<le> exact_hours (group_int d) (group_int h) (group_int m) (group_int s) / 2 ^ 51))"
    using hours_of_duration [of d h m s line] hours_of_digits_accuracy [of d h m s]
    by (simp del: after_first.simps)
  have l0: "binary64 (1 / 80) = Fin (3602879701896397 / 288230376151711744)"
    by (rule binary64_eqI [where e = "-7" and k = "-59" and m = "7205759403792794"]) (simp_all add: pow2_def)
  have l: "binary64 (125 / 10000) = Fin (3602879701896397 / 288230376151711744)"
    using l0 by simp
  have v: "\<bar>(916591986660839 / 35184372088832) - (1 * 24 + 2 + 3 / 60 + 4 / 3600)\<bar> < (1 / 10 ^ 14 :: rat)"
    by simp
  show ?thesis
    using g l hours_1d_2h_3m_4s hours_45s hours_empty_duration hours_no_line
    by (simp only: v simp_thms)
qed

theorem printing_hours_of_duration_witness:
  "digits (Some ''1'') \<and> digits (Some ''2'') \<and> digits (Some ''3'') \<and> digits (Some ''4'')
   \<and> duration_text (Some ''1'') (Some ''2'') (Some ''3'') (Some ''4'') = ''1d 2h 3m 4s''
   \<and> after_first ''total estimated time: '' ''; model printing time: 1d 1h 2m 3s; total estimated time: 1d 2h 3m 4s'' = Some ''1d 2h 3m 4s''
   \<and> at_most_digits 300 (Some ''1'') \<and> at_most_digits 300 (Some ''2'')
   \<and> at_most_digits 300 (Some ''3'') \<and> at_most_digits 300 (Some ''4'')
   \<and> hours_expr 1 2 3 4 = Inr (Fin (916591986660839 / 35184372088832))
   \<and> \<bar>(916591986660839 / 35184372088832) - exact_hours 1 2 3 4\<bar> \<le> exact_hours 1 2 3 4 / 2 ^ 51"
proof -
  have x: "\<bar>(916591986660839 / 35184372088832) - exact_hours 1 2 3 4\<bar> \<le> exact_hours 1 2 3 4 / 2 ^ 51"
    by (simp add: exact_hours_def)
  have d: "digits (Some ''1'')" "digits (Some ''2'')" "digits (Some ''3'')" "digits (Some ''4'')"
    by (simp_all add: digits_def is_digit_def)
  have a: "at_most_digits 300 (Some ''1'')" "at_most_digits 300 (Some ''2'')"
    "at_most_digits 300 (Some ''3'')" "at_most_digits 300 (Some ''4'')"
    by (simp_all add: at_most_digits_def)
  have t: "duration_text (Some ''1'') (Some ''2'') (Some ''3'') (Some ''4'') = ''1d 2h 3m 4s''"
    by (simp add: duration_text_def component_def)
  have f: "after_first ''total estimated time: '' ''; model printing time: 1d 1h 2m 3s; total estimated time: 1d 2h 3m 4s'' = Some ''1d 2h 3m 4s''"
    by code_simp
  have v: "group_int (Some ''1'') = 1" "group_int (Some ''2'') = 2" "group_int (Some ''3'') = 3"
    "group_int (Some ''4'') = 4"
    by (simp_all add: group_int_def dec_value_def digit_val_def)
  note th = printing_hours_of_duration [of "Some ''1''" "Some ''2''" "Some ''3''" "Some ''4''"
      "''; model printing time: 1d 1h 2m 3s; total estimated time: 1d 2h 3m 4s''"]
  have "Total_printing_hours (Some ''; model printing time: 1d 1h 2m 3s; total estimated time: 1d 2h 3m 4s'')
        = hours_expr (group_int (Some ''1'')) (group_int (Some ''2'')) (group_int (Some ''3''))
            (group_int (Some ''4''))"
    using th [THEN conjunct1] d f t by (simp only: simp_thms)
  moreover have "Total_printing_hours (Some ''; model printing time: 1d 1h 2m 3s; total estimated time: 1d 2h 3m 4s'') = Inr (Fin (916591986660839 / 35184372088832))"
    by (rule th [THEN conjunct2, THEN conjunct1])
  ultimately have "hours_expr 1 2 3 4 = Inr (Fin (916591986660839 / 35184372088832))" by (simp only: v)
  then show ?thesis using d a t f x by (simp only: simp_thms)
qed

text \<open>
  \<^verbatim>\<open>1d 2h 3m 4s\<close> does not give the 26.05 hours of the claim C2: the four seconds count,
  and the result is more than 0.001 above 26.05.
\<close>

theorem hours_1d_2h_3m_4s_above_claimed:
  "Total_printing_hours (Some ''; model printing time: 1d 1h 2m 3s; total estimated time: 1d 2h 3m 4s'') = Inr (Fin (916591986660839 / 35184372088832))
   \<and> Fin (7332423143312589 / 281474976710656) = binary64 (2605 / 100)
   \<and> Fin (916591986660839 / 35184372088832) \<noteq> Fin (7332423143312589 / 281474976710656)
   \<and> (2605 / 100 :: rat) + 1 / 1000 < (916591986660839 / 35184372088832)"
proof -
  have l: "binary64 (521 / 20) = Fin (7332423143312589 / 281474976710656)"
    by (rule binary64_eqI [where e = "4" and k = "-48" and m = "7332423143312589"]) (simp_all add: pow2_def)
  show ?thesis using hours_1d_2h_3m_4s by (simp add: l)
qed

end
